theory Spec2Isabelle
  imports Main "HOL-Library.Word"
begin

section \<open>JavaScript strings\<close>

text \<open>
  A JavaScript string is a sequence of UTF-16 code units; \<open>length\<close>, \<open>substring\<close>,
  \<open>padStart\<close> and the regular expressions of \<open>utils/KLVParser.ts\<close> all count and match code
  units. An ASCII literal of the source is written \<open>js ''...''\<close>; a character outside ASCII is
  written as its code units.
\<close>

type_synonym jschar = "16 word"
type_synonym jsstring = "jschar list"

definition js :: "string \<Rightarrow> jsstring" where
  "js s = map of_char s"

text \<open>The character class \<open>\s\<close>: WhiteSpace and LineTerminator of ECMA-262.\<close>

definition isWhitespace :: "jschar \<Rightarrow> bool" where
  "isWhitespace c \<longleftrightarrow>
     c = 0x0009 \<or> c = 0x000A \<or> c = 0x000B \<or> c = 0x000C \<or> c = 0x000D \<or> c = 0x0020 \<or>
     c = 0x00A0 \<or> c = 0x1680 \<or> (0x2000 \<le> c \<and> c \<le> 0x200A) \<or> c = 0x2028 \<or> c = 0x2029 \<or>
     c = 0x202F \<or> c = 0x205F \<or> c = 0x3000 \<or> c = 0xFEFF"

text \<open>The character class \<open>\d\<close>: the ten ASCII digits.\<close>

definition isDigit :: "jschar \<Rightarrow> bool" where
  "isDigit c \<longleftrightarrow> 0x30 \<le> c \<and> c \<le> 0x39"

text \<open>\<open>s.replace(/\s/g, '')\<close>\<close>

definition stripWhitespace :: "jsstring \<Rightarrow> jsstring" where
  "stripWhitespace s = filter (\<lambda>c. \<not> isWhitespace c) s"

text \<open>\<open>/^\d{3}$/.test(s)\<close> and \<open>/^\d{2}$/.test(s)\<close>\<close>

definition test_d3 :: "jsstring \<Rightarrow> bool" where
  "test_d3 s \<longleftrightarrow> length s = 3 \<and> list_all isDigit s"

definition test_d2 :: "jsstring \<Rightarrow> bool" where
  "test_d2 s \<longleftrightarrow> length s = 2 \<and> list_all isDigit s"

text \<open>
  \<open>s.substring(a, b)\<close> for non-negative integers: both indices are clamped to the length of
  the string and swapped when the first exceeds the second.
\<close>

definition substring :: "jsstring \<Rightarrow> nat \<Rightarrow> nat \<Rightarrow> jsstring" where
  "substring s a b =
     (let a' = min a (length s); b' = min b (length s);
          lo = min a' b'; hi = max a' b'
      in take (hi - lo) (drop lo s))"

text \<open>\<open>s.padStart(n, c)\<close> for a fill string of the single character \<open>c\<close>.\<close>

definition padStart :: "nat \<Rightarrow> jschar \<Rightarrow> jsstring \<Rightarrow> jsstring" where
  "padStart n c s = replicate (n - length s) c @ s"

text \<open>The decimal rendering of a non-negative integer (\<open>n.toString()\<close>, \<open>`${n}`\<close>).\<close>

fun toString :: "nat \<Rightarrow> jsstring" where
  "toString n =
     (if n < 10 then [of_nat (48 + n)]
      else toString (n div 10) @ [of_nat (48 + n mod 10)])"

declare toString.simps [simp del]

text \<open>
  \<open>parseInt(s, 10)\<close> on a string that starts with a decimal digit: the number its leading
  digits spell. (On other strings \<open>parseInt\<close> skips white space, reads a sign, or gives NaN;
  \<open>parse\<close> calls it only behind the guard \<open>/^\d{2}$/\<close>, see \<open>parseInt_test_d2\<close>.)
\<close>

definition parseInt :: "jsstring \<Rightarrow> nat" where
  "parseInt s = foldl (\<lambda>a c. 10 * a + (unat c - 48)) 0 (takeWhile isDigit s)"

text \<open>\<open>xs.join(sep)\<close>\<close>

fun join :: "jsstring \<Rightarrow> jsstring list \<Rightarrow> jsstring" where
  "join sep [] = []"
| "join sep [x] = x"
| "join sep (x # y # ys) = x @ sep @ join sep (y # ys)"

section \<open>Property lookup on object literals\<close>

text \<open>
  The three tables of \<open>KLVParser\<close> are object literals, so \<open>table[k]\<close> reads the table's own
  property \<open>k\<close>, or else the property \<open>k\<close> that every plain object inherits from
  \<open>Object.prototype\<close>, and is \<open>undefined\<close> only when both are missing. The inherited
  members are built-in functions, except \<open>__proto__\<close>, which reads as \<open>Object.prototype\<close>
  itself.
\<close>

datatype 'a jsval =
    Val 'a
  | Undefined
  | Builtin jsstring  \<comment> \<open>the member of \<open>Object.prototype\<close> with that name\<close>

definition ObjectPrototype :: "jsstring list" where
  "ObjectPrototype = map js
     [''constructor'', ''__defineGetter__'', ''__defineSetter__'', ''hasOwnProperty'',
      ''__lookupGetter__'', ''__lookupSetter__'', ''isPrototypeOf'', ''propertyIsEnumerable'',
      ''toString'', ''valueOf'', ''__proto__'', ''toLocaleString'']"

definition getProp :: "(jsstring \<times> 'a) list \<Rightarrow> jsstring \<Rightarrow> 'a jsval" where
  "getProp obj k =
     (case map_of obj k of
        Some v \<Rightarrow> Val v
      | None \<Rightarrow> if k \<in> set ObjectPrototype then Builtin k else Undefined)"

text \<open>
  \<open>.name\<close> of an inherited member: a built-in function is named after its property,
  \<open>Object.prototype.constructor\<close> is the function \<open>Object\<close>, and \<open>Object.prototype\<close> has
  no property \<open>name\<close>.
\<close>

definition memberName :: "jsstring \<Rightarrow> jsstring jsval" where
  "memberName p =
     (if p = js ''__proto__'' then Undefined
      else if p = js ''constructor'' then Val (js ''Object'')
      else Val p)"

text \<open>
  Conversion to a string inside a template literal. The text of a built-in function is the
  one V8 prints (ECMA-262 fixes it up to white space).
\<close>

definition template :: "jsstring jsval \<Rightarrow> jsstring" where
  "template v =
     (case v of
        Val s \<Rightarrow> s
      | Undefined \<Rightarrow> js ''undefined''
      | Builtin p \<Rightarrow>
          (case memberName p of
             Val f \<Rightarrow> js ''function '' @ f @ js ''() { [native code] }''
           | _ \<Rightarrow> js ''[object Object]''))"

text \<open>Truthiness of a string-valued read: \<open>undefined\<close> and \<open>''\<close> are falsy.\<close>

definition truthy :: "jsstring jsval \<Rightarrow> bool" where
  "truthy v = (case v of Val s \<Rightarrow> s \<noteq> [] | Undefined \<Rightarrow> False | Builtin p \<Rightarrow> True)"

text \<open>
  Reading a property of \<open>undefined\<close> or \<open>null\<close> throws a \<open>TypeError\<close>; a function that may
  throw returns \<open>Inl\<close> of the exception.
\<close>

datatype exn = TypeError

section \<open>Data model\<close>

record KLVBuildEntry =
  key :: jsstring
  "value" :: jsstring

text \<open>A row of \<open>currencyMapping\<close>.\<close>

record Currency =
  name :: jsstring
  code :: jsstring
  flag :: jsstring

text \<open>
  \<open>currencyInfo\<close> and \<open>mccInfo\<close> hold whatever the table read produced, which at run time
  need not be a string.
\<close>

record CurrencyInfo =
  code :: "jsstring jsval"
  name :: "jsstring jsval"
  flag :: "jsstring jsval"

record MccInfo =
  code :: jsstring
  description :: "jsstring jsval"

record CurrencyFormat =
  formattedValue :: jsstring
  currencyInfo :: "CurrencyInfo option"

record MccFormat =
  formattedValue :: jsstring
  mccInfo :: "MccInfo option"

record KLVEntry =
  key :: jsstring
  len :: nat
  "value" :: jsstring
  pos :: nat
  name :: "jsstring jsval"
  formattedValue :: "jsstring option"
  currencyInfo :: "CurrencyInfo option"
  mccInfo :: "MccInfo option"

record KLVParseResult =
  results :: "KLVEntry list"
  errors :: "jsstring list"

record KLVValidationResult =
  isValid :: bool
  entriesCount :: nat
  errors :: "jsstring list"
  totalLength :: nat

section \<open>The tables\<close>

text \<open>
  The object literals \<open>definitions\<close>, \<open>currencyMapping\<close> and \<open>mccMapping\<close>, row by row. No
  key is written twice in a table, so the first row that \<open>map_of\<close> finds is the only one.
\<close>

definition definitions :: "(jsstring \<times> jsstring) list" where
  "definitions = [
     (js ''002'', js ''Tracking Number''),
     (js ''004'', js ''Original Transaction Amount''),
     (js ''010'', js ''Conversion Rate''),
     (js ''026'', js ''Merchant Category Code''),
     (js ''032'', js ''Acquiring Institution Code''),
     (js ''037'', js ''Retrieval Reference Number''),
     (js ''041'', js ''Terminal ID''),
     (js ''042'', js ''Merchant Identifier''),
     (js ''043'', js ''Merchant Description''),
     (js ''044'', js ''Merchant Name''),
     (js ''045'', js ''Transaction Type Identifier''),
     (js ''048'', js ''Fraud Scoring Data''),
     (js ''049'', js ''Original Currency Code''),
     (js ''050'', js ''From Account''),
     (js ''052'', js ''Pin Block''),
     (js ''061'', js ''POS Data''),
     (js ''063'', js ''TraceID''),
     (js ''067'', js ''Extended Payment Code''),
     (js ''068'', js ''Is Recurring''),
     (js ''069'', js ''Message Reason Code''),
     (js ''085'', js ''Markup Amount''),
     (js ''108'', js ''Recipient Name''),
     (js ''109'', js ''Recipient Address''),
     (js ''110'', js ''Recipient Account Number''),
     (js ''111'', js ''Recipient Account Number Type''),
     (js ''250'', js ''Capture Mode''),
     (js ''251'', js ''Network''),
     (js ''252'', js ''Fee Type''),
     (js ''253'', js ''Last Four Digits PAN''),
     (js ''254'', js ''MDES Digitized PAN''),
     (js ''255'', js ''MDES Digitized Wallet ID''),
     (js ''256'', js ''Adjustment Reason''),
     (js ''257'', js ''Reference ID''),
     (js ''258'', js ''Markup Type''),
     (js ''259'', js ''Acquirer Country''),
     (js ''260'', js ''Mobile Number''),
     (js ''261'', js ''Transaction Fee Amount''),
     (js ''262'', js ''Transaction Subtype''),
     (js ''263'', js ''Card Issuer Data''),
     (js ''264'', js ''Tax''),
     (js ''265'', js ''Tax Amount Base''),
     (js ''266'', js ''Retailer Data''),
     (js ''267'', js ''IAC Tax Amount''),
     (js ''268'', js ''Number of Installments''),
     (js ''269'', js ''Customer ID''),
     (js ''270'', js ''Security Services Data''),
     (js ''271'', js ''On Behalf of Services''),
     (js ''272'', js ''Original Merchant Description''),
     (js ''273'', js ''Installments Financing Type''),
     (js ''274'', js ''Status''),
     (js ''275'', js ''Installments Grace Period''),
     (js ''276'', js ''Installments Type of Credit''),
     (js ''277'', js ''Payments Initiator''),
     (js ''278'', js ''Payment Initiator Subtype''),
     (js ''300'', js ''Additional Amount''),
     (js ''301'', js ''Second Additional Amount''),
     (js ''302'', js ''Cashback POS Currency Code''),
     (js ''303'', js ''Cashback POS Amount''),
     (js ''400'', js ''Sender Name''),
     (js ''401'', js ''Sender Address''),
     (js ''402'', js ''Sender City''),
     (js ''403'', js ''Sender State''),
     (js ''404'', js ''Sender Country''),
     (js ''405'', js ''Sanction Screening Score''),
     (js ''406'', js ''Business Application Identifier''),
     (js ''408'', js ''Special Condition Indicator''),
     (js ''409'', js ''Business Tax ID''),
     (js ''410'', js ''Individual Tax ID''),
     (js ''411'', js ''Source of Funds''),
     (js ''412'', js ''Sender Account Number''),
     (js ''413'', js ''Sender Account Number Type''),
     (js ''414'', js ''MVV''),
     (js ''415'', js ''Sender Reference Number''),
     (js ''416'', js ''Is AFD Transaction''),
     (js ''417'', js ''Acquirer Fee Amount''),
     (js ''418'', js ''Address Verification Result''),
     (js ''419'', js ''Postal Code / ZIP Code''),
     (js ''420'', js ''Street Address''),
     (js ''421'', js ''Sender Date of Birth''),
     (js ''422'', js ''OCT Activity Check Result''),
     (js ''423'', js ''Sender Postal Code''),
     (js ''424'', js ''Recipient City''),
     (js ''425'', js ''Recipient Country''),
     (js ''900'', js ''3D Secure OTP''),
     (js ''901'', js ''Digitization Activation''),
     (js ''902'', js ''Digitization Activation Method Type''),
     (js ''903'', js ''Digitization Activation Method Value''),
     (js ''904'', js ''Digitization Activation Expiry''),
     (js ''905'', js ''Digitization Final Tokenization Decision''),
     (js ''906'', js ''Device Name''),
     (js ''910'', js ''Digitized Device ID''),
     (js ''911'', js ''Digitized PAN Expiry''),
     (js ''912'', js ''Digitized FPAN Masked''),
     (js ''913'', js ''Token Unique Reference''),
     (js ''915'', js ''Digitized Token Requestor ID''),
     (js ''916'', js ''Visa Digitized PAN''),
     (js ''917'', js ''Visa Token Type''),
     (js ''920'', js ''POS Transaction Status''),
     (js ''921'', js ''POS Transaction Security''),
     (js ''922'', js ''POS Authorisation Lifecycle''),
     (js ''923'', js ''Digitization Event Type''),
     (js ''924'', js ''Digitization Event Reason Code''),
     (js ''925'', js ''Supports Partial Auth''),
     (js ''929'', js ''Digitization Path''),
     (js ''930'', js ''Wallet Recommendation''),
     (js ''931'', js ''Tokenization PAN Source''),
     (js ''932'', js ''Unique Transaction Reference''),
     (js ''933'', js ''Transaction Purpose''),
     (js ''934'', js ''3D Secure OTP RefCode''),
     (js ''999'', js ''Generic Key'')
   ]"

definition currencyMapping :: "(jsstring \<times> Currency) list" where
  "currencyMapping = [
     (js ''840'', \<lparr>Currency.name = js ''US Dollar'', Currency.code = js ''USD'', Currency.flag = [0xD83C, 0xDDFA, 0xD83C, 0xDDF8]\<rparr>),
     (js ''978'', \<lparr>Currency.name = js ''Euro'', Currency.code = js ''EUR'', Currency.flag = [0xD83C, 0xDDEA, 0xD83C, 0xDDFA]\<rparr>),
     (js ''826'', \<lparr>Currency.name = js ''Pound Sterling'', Currency.code = js ''GBP'', Currency.flag = [0xD83C, 0xDDEC, 0xD83C, 0xDDE7]\<rparr>),
     (js ''392'', \<lparr>Currency.name = js ''Japanese Yen'', Currency.code = js ''JPY'', Currency.flag = [0xD83C, 0xDDEF, 0xD83C, 0xDDF5]\<rparr>),
     (js ''756'', \<lparr>Currency.name = js ''Swiss Franc'', Currency.code = js ''CHF'', Currency.flag = [0xD83C, 0xDDE8, 0xD83C, 0xDDED]\<rparr>),
     (js ''124'', \<lparr>Currency.name = js ''Canadian Dollar'', Currency.code = js ''CAD'', Currency.flag = [0xD83C, 0xDDE8, 0xD83C, 0xDDE6]\<rparr>),
     (js ''036'', \<lparr>Currency.name = js ''Australian Dollar'', Currency.code = js ''AUD'', Currency.flag = [0xD83C, 0xDDE6, 0xD83C, 0xDDFA]\<rparr>),
     (js ''554'', \<lparr>Currency.name = js ''New Zealand Dollar'', Currency.code = js ''NZD'', Currency.flag = [0xD83C, 0xDDF3, 0xD83C, 0xDDFF]\<rparr>),
     (js ''156'', \<lparr>Currency.name = js ''Chinese Yuan'', Currency.code = js ''CNY'', Currency.flag = [0xD83C, 0xDDE8, 0xD83C, 0xDDF3]\<rparr>),
     (js ''356'', \<lparr>Currency.name = js ''Indian Rupee'', Currency.code = js ''INR'', Currency.flag = [0xD83C, 0xDDEE, 0xD83C, 0xDDF3]\<rparr>),
     (js ''752'', \<lparr>Currency.name = js ''Swedish Krona'', Currency.code = js ''SEK'', Currency.flag = [0xD83C, 0xDDF8, 0xD83C, 0xDDEA]\<rparr>),
     (js ''578'', \<lparr>Currency.name = js ''Norwegian Krone'', Currency.code = js ''NOK'', Currency.flag = [0xD83C, 0xDDF3, 0xD83C, 0xDDF4]\<rparr>),
     (js ''208'', \<lparr>Currency.name = js ''Danish Krone'', Currency.code = js ''DKK'', Currency.flag = [0xD83C, 0xDDE9, 0xD83C, 0xDDF0]\<rparr>),
     (js ''985'', \<lparr>Currency.name = js ''Polish Zloty'', Currency.code = js ''PLN'', Currency.flag = [0xD83C, 0xDDF5, 0xD83C, 0xDDF1]\<rparr>),
     (js ''203'', \<lparr>Currency.name = js ''Czech Koruna'', Currency.code = js ''CZK'', Currency.flag = [0xD83C, 0xDDE8, 0xD83C, 0xDDFF]\<rparr>),
     (js ''348'', \<lparr>Currency.name = js ''Hungarian Forint'', Currency.code = js ''HUF'', Currency.flag = [0xD83C, 0xDDED, 0xD83C, 0xDDFA]\<rparr>),
     (js ''946'', \<lparr>Currency.name = js ''Romanian Leu'', Currency.code = js ''RON'', Currency.flag = [0xD83C, 0xDDF7, 0xD83C, 0xDDF4]\<rparr>),
     (js ''975'', \<lparr>Currency.name = js ''Bulgarian Lev'', Currency.code = js ''BGN'', Currency.flag = [0xD83C, 0xDDE7, 0xD83C, 0xDDEC]\<rparr>),
     (js ''191'', \<lparr>Currency.name = js ''Croatian Kuna'', Currency.code = js ''HRK'', Currency.flag = [0xD83C, 0xDDED, 0xD83C, 0xDDF7]\<rparr>),
     (js ''941'', \<lparr>Currency.name = js ''Serbian Dinar'', Currency.code = js ''RSD'', Currency.flag = [0xD83C, 0xDDF7, 0xD83C, 0xDDF8]\<rparr>),
     (js ''702'', \<lparr>Currency.name = js ''Singapore Dollar'', Currency.code = js ''SGD'', Currency.flag = [0xD83C, 0xDDF8, 0xD83C, 0xDDEC]\<rparr>),
     (js ''344'', \<lparr>Currency.name = js ''Hong Kong Dollar'', Currency.code = js ''HKD'', Currency.flag = [0xD83C, 0xDDED, 0xD83C, 0xDDF0]\<rparr>),
     (js ''410'', \<lparr>Currency.name = js ''Korean Won'', Currency.code = js ''KRW'', Currency.flag = [0xD83C, 0xDDF0, 0xD83C, 0xDDF7]\<rparr>),
     (js ''764'', \<lparr>Currency.name = js ''Thai Baht'', Currency.code = js ''THB'', Currency.flag = [0xD83C, 0xDDF9, 0xD83C, 0xDDED]\<rparr>),
     (js ''458'', \<lparr>Currency.name = js ''Malaysian Ringgit'', Currency.code = js ''MYR'', Currency.flag = [0xD83C, 0xDDF2, 0xD83C, 0xDDFE]\<rparr>),
     (js ''360'', \<lparr>Currency.name = js ''Indonesian Rupiah'', Currency.code = js ''IDR'', Currency.flag = [0xD83C, 0xDDEE, 0xD83C, 0xDDE9]\<rparr>),
     (js ''608'', \<lparr>Currency.name = js ''Philippine Peso'', Currency.code = js ''PHP'', Currency.flag = [0xD83C, 0xDDF5, 0xD83C, 0xDDED]\<rparr>),
     (js ''704'', \<lparr>Currency.name = js ''Vietnamese Dong'', Currency.code = js ''VND'', Currency.flag = [0xD83C, 0xDDFB, 0xD83C, 0xDDF3]\<rparr>),
     (js ''096'', \<lparr>Currency.name = js ''Brunei Dollar'', Currency.code = js ''BND'', Currency.flag = [0xD83C, 0xDDE7, 0xD83C, 0xDDF3]\<rparr>),
     (js ''484'', \<lparr>Currency.name = js ''Mexican Peso'', Currency.code = js ''MXN'', Currency.flag = [0xD83C, 0xDDF2, 0xD83C, 0xDDFD]\<rparr>),
     (js ''986'', \<lparr>Currency.name = js ''Brazilian Real'', Currency.code = js ''BRL'', Currency.flag = [0xD83C, 0xDDE7, 0xD83C, 0xDDF7]\<rparr>),
     (js ''032'', \<lparr>Currency.name = js ''Argentine Peso'', Currency.code = js ''ARS'', Currency.flag = [0xD83C, 0xDDE6, 0xD83C, 0xDDF7]\<rparr>),
     (js ''152'', \<lparr>Currency.name = js ''Chilean Peso'', Currency.code = js ''CLP'', Currency.flag = [0xD83C, 0xDDE8, 0xD83C, 0xDDF1]\<rparr>),
     (js ''604'', \<lparr>Currency.name = js ''Peruvian Sol'', Currency.code = js ''PEN'', Currency.flag = [0xD83C, 0xDDF5, 0xD83C, 0xDDEA]\<rparr>),
     (js ''170'', \<lparr>Currency.name = js ''Colombian Peso'', Currency.code = js ''COP'', Currency.flag = [0xD83C, 0xDDE8, 0xD83C, 0xDDF4]\<rparr>),
     (js ''858'', \<lparr>Currency.name = js ''Uruguayan Peso'', Currency.code = js ''UYU'', Currency.flag = [0xD83C, 0xDDFA, 0xD83C, 0xDDFE]\<rparr>),
     (js ''600'', \<lparr>Currency.name = js ''Paraguayan Guarani'', Currency.code = js ''PYG'', Currency.flag = [0xD83C, 0xDDF5, 0xD83C, 0xDDFE]\<rparr>),
     (js ''068'', \<lparr>Currency.name = js ''Bolivian Boliviano'', Currency.code = js ''BOB'', Currency.flag = [0xD83C, 0xDDE7, 0xD83C, 0xDDF4]\<rparr>),
     (js ''218'', \<lparr>Currency.name = js ''Ecuadorian Sucre'', Currency.code = js ''ECS'', Currency.flag = [0xD83C, 0xDDEA, 0xD83C, 0xDDE8]\<rparr>),
     (js ''784'', \<lparr>Currency.name = js ''UAE Dirham'', Currency.code = js ''AED'', Currency.flag = [0xD83C, 0xDDE6, 0xD83C, 0xDDEA]\<rparr>),
     (js ''682'', \<lparr>Currency.name = js ''Saudi Riyal'', Currency.code = js ''SAR'', Currency.flag = [0xD83C, 0xDDF8, 0xD83C, 0xDDE6]\<rparr>),
     (js ''376'', \<lparr>Currency.name = js ''Israeli New Shekel'', Currency.code = js ''ILS'', Currency.flag = [0xD83C, 0xDDEE, 0xD83C, 0xDDF1]\<rparr>),
     (js ''818'', \<lparr>Currency.name = js ''Egyptian Pound'', Currency.code = js ''EGP'', Currency.flag = [0xD83C, 0xDDEA, 0xD83C, 0xDDEC]\<rparr>),
     (js ''710'', \<lparr>Currency.name = js ''South African Rand'', Currency.code = js ''ZAR'', Currency.flag = [0xD83C, 0xDDFF, 0xD83C, 0xDDE6]\<rparr>),
     (js ''566'', \<lparr>Currency.name = js ''Nigerian Naira'', Currency.code = js ''NGN'', Currency.flag = [0xD83C, 0xDDF3, 0xD83C, 0xDDEC]\<rparr>),
     (js ''404'', \<lparr>Currency.name = js ''Kenyan Shilling'', Currency.code = js ''KES'', Currency.flag = [0xD83C, 0xDDF0, 0xD83C, 0xDDEA]\<rparr>),
     (js ''788'', \<lparr>Currency.name = js ''Tunisian Dinar'', Currency.code = js ''TND'', Currency.flag = [0xD83C, 0xDDF9, 0xD83C, 0xDDF3]\<rparr>),
     (js ''504'', \<lparr>Currency.name = js ''Moroccan Dirham'', Currency.code = js ''MAD'', Currency.flag = [0xD83C, 0xDDF2, 0xD83C, 0xDDE6]\<rparr>),
     (js ''012'', \<lparr>Currency.name = js ''Algerian Dinar'', Currency.code = js ''DZD'', Currency.flag = [0xD83C, 0xDDE9, 0xD83C, 0xDDFF]\<rparr>),
     (js ''643'', \<lparr>Currency.name = js ''Russian Ruble'', Currency.code = js ''RUB'', Currency.flag = [0xD83C, 0xDDF7, 0xD83C, 0xDDFA]\<rparr>),
     (js ''980'', \<lparr>Currency.name = js ''Ukrainian Hryvnia'', Currency.code = js ''UAH'', Currency.flag = [0xD83C, 0xDDFA, 0xD83C, 0xDDE6]\<rparr>),
     (js ''398'', \<lparr>Currency.name = js ''Kazakhstani Tenge'', Currency.code = js ''KZT'', Currency.flag = [0xD83C, 0xDDF0, 0xD83C, 0xDDFF]\<rparr>),
     (js ''051'', \<lparr>Currency.name = js ''Armenian Dram'', Currency.code = js ''AMD'', Currency.flag = [0xD83C, 0xDDE6, 0xD83C, 0xDDF2]\<rparr>),
     (js ''031'', \<lparr>Currency.name = js ''Azerbaijani Manat'', Currency.code = js ''AZN'', Currency.flag = [0xD83C, 0xDDE6, 0xD83C, 0xDDFF]\<rparr>),
     (js ''934'', \<lparr>Currency.name = js ''Turkmenistani Manat'', Currency.code = js ''TMT'', Currency.flag = [0xD83C, 0xDDF9, 0xD83C, 0xDDF2]\<rparr>),
     (js ''860'', \<lparr>Currency.name = js ''Uzbekistani Som'', Currency.code = js ''UZS'', Currency.flag = [0xD83C, 0xDDFA, 0xD83C, 0xDDFF]\<rparr>),
     (js ''417'', \<lparr>Currency.name = js ''Kyrgyzstani Som'', Currency.code = js ''KGS'', Currency.flag = [0xD83C, 0xDDF0, 0xD83C, 0xDDEC]\<rparr>),
     (js ''972'', \<lparr>Currency.name = js ''Tajikistani Somoni'', Currency.code = js ''TJS'', Currency.flag = [0xD83C, 0xDDF9, 0xD83C, 0xDDEF]\<rparr>),
     (js ''949'', \<lparr>Currency.name = js ''Turkish Lira'', Currency.code = js ''TRY'', Currency.flag = [0xD83C, 0xDDF9, 0xD83C, 0xDDF7]\<rparr>),
     (js ''364'', \<lparr>Currency.name = js ''Iranian Rial'', Currency.code = js ''IRR'', Currency.flag = [0xD83C, 0xDDEE, 0xD83C, 0xDDF7]\<rparr>),
     (js ''368'', \<lparr>Currency.name = js ''Iraqi Dinar'', Currency.code = js ''IQD'', Currency.flag = [0xD83C, 0xDDEE, 0xD83C, 0xDDF6]\<rparr>),
     (js ''414'', \<lparr>Currency.name = js ''Kuwaiti Dinar'', Currency.code = js ''KWD'', Currency.flag = [0xD83C, 0xDDF0, 0xD83C, 0xDDFC]\<rparr>),
     (js ''048'', \<lparr>Currency.name = js ''Bahraini Dinar'', Currency.code = js ''BHD'', Currency.flag = [0xD83C, 0xDDE7, 0xD83C, 0xDDED]\<rparr>),
     (js ''634'', \<lparr>Currency.name = js ''Qatari Rial'', Currency.code = js ''QAR'', Currency.flag = [0xD83C, 0xDDF6, 0xD83C, 0xDDE6]\<rparr>),
     (js ''512'', \<lparr>Currency.name = js ''Omani Rial'', Currency.code = js ''OMR'', Currency.flag = [0xD83C, 0xDDF4, 0xD83C, 0xDDF2]\<rparr>),
     (js ''422'', \<lparr>Currency.name = js ''Lebanese Pound'', Currency.code = js ''LBP'', Currency.flag = [0xD83C, 0xDDF1, 0xD83C, 0xDDE7]\<rparr>),
     (js ''400'', \<lparr>Currency.name = js ''Jordanian Dinar'', Currency.code = js ''JOD'', Currency.flag = [0xD83C, 0xDDEF, 0xD83C, 0xDDF4]\<rparr>)
   ]"

definition mccMapping :: "(jsstring \<times> jsstring) list" where
  "mccMapping = [
     (js ''0742'', js ''Veterinary Services''),
     (js ''0763'', js ''Agricultural Cooperative''),
     (js ''0780'', js ''Horticultural and Landscaping Services''),
     (js ''1520'', js ''General Contractors - Residential and Commercial''),
     (js ''1711'', js ''Heating, Plumbing, Air Conditioning Contractors''),
     (js ''1731'', js ''Electrical Contractors''),
     (js ''1740'', js ''Masonry, Stonework, Tile Setting, Plastering, and Insulation Contractors''),
     (js ''1750'', js ''Carpentry Contractors''),
     (js ''1761'', js ''Roofing, Siding, and Sheet Metal Work Contractors''),
     (js ''1771'', js ''Concrete Work Contractors''),
     (js ''1799'', js ''Special Trade Contractors - Not Elsewhere Classified''),
     (js ''3000'', js ''United Airlines''),
     (js ''3001'', js ''American Airlines''),
     (js ''3002'', js ''Pan American''),
     (js ''3003'', js ''Alitalia''),
     (js ''3004'', js ''Delta Air Lines''),
     (js ''3005'', js ''British Airways''),
     (js ''3006'', js ''Japan Air Lines''),
     (js ''3007'', js ''Air France''),
     (js ''3008'', js ''Lufthansa''),
     (js ''3009'', js ''Air Canada''),
     (js ''3010'', js ''KLM Royal Dutch Airlines''),
     (js ''3011'', js ''Aeroflot Russian International Airlines''),
     (js ''3012'', js ''Qantas Airways''),
     (js ''3013'', js ''Alaskan Airlines''),
     (js ''3014'', js ''North West Airlines''),
     (js ''3015'', js ''Braniff International Airways''),
     (js ''3016'', js ''Southwest Airlines''),
     (js ''3017'', js ''Continental Airlines''),
     (js ''3018'', js ''Federal Express Corporation''),
     (js ''3019'', js ''US Airways''),
     (js ''3020'', js ''Air New Zealand''),
     (js ''3021'', js ''Singapore Airlines''),
     (js ''3022'', js ''SAS''),
     (js ''3023'', js ''Eastern Airlines''),
     (js ''3024'', js ''America West Airlines''),
     (js ''3025'', js ''Philippines Airlines''),
     (js ''3026'', js ''China Airlines''),
     (js ''3027'', js ''Air India''),
     (js ''3028'', js ''Korean Air Lines''),
     (js ''3029'', js ''Malaysian Airlines''),
     (js ''3030'', js ''Thai Airways International''),
     (js ''3031'', js ''Sabena Belgian World Airlines''),
     (js ''3032'', js ''United Parcel Service''),
     (js ''3033'', js ''Airborne Express''),
     (js ''3034'', js ''DHL Airways''),
     (js ''3035'', js ''Helicopter Airlines''),
     (js ''3036'', js ''Varig Brazilian Airlines''),
     (js ''3037'', js ''Icelandair''),
     (js ''3038'', js ''Air Malta''),
     (js ''3039'', js ''Egyptian Air''),
     (js ''3040'', js ''Ansett Airlines''),
     (js ''3041'', js ''Pakistan International Airlines''),
     (js ''3042'', js ''Virgin Atlantic Airways''),
     (js ''3043'', js ''Virgin America''),
     (js ''3044'', js ''Spirit Airlines''),
     (js ''3045'', js ''Air Berlin''),
     (js ''3046'', js ''Swiss International Air Lines''),
     (js ''3047'', js ''Turkish Airlines''),
     (js ''3048'', js ''Austrian Airlines Group''),
     (js ''3049'', js ''LOT Polish Airlines''),
     (js ''3050'', js ''Hainan Airlines''),
     (js ''3051'', js ''Air China''),
     (js ''3052'', js ''China Eastern Airlines''),
     (js ''3053'', js ''China Southern Airlines''),
     (js ''3054'', js ''Xiamen Airlines''),
     (js ''3055'', js ''ANA All Nippon Airways''),
     (js ''3056'', js ''Asiana Airlines''),
     (js ''3057'', js ''Cebu Pacific Air''),
     (js ''3058'', js ''IndiGo''),
     (js ''3059'', js ''SpiceJet''),
     (js ''3060'', js ''AirAsia''),
     (js ''3061'', js ''Jetstar Airways''),
     (js ''3062'', js ''Scoot''),
     (js ''3063'', js ''Emirates''),
     (js ''3064'', js ''Etihad Airways''),
     (js ''3065'', js ''Qatar Airways''),
     (js ''3066'', js ''Saudi Arabian Airlines''),
     (js ''3067'', js ''Royal Jordanian''),
     (js ''3068'', js ''EgyptAir''),
     (js ''3069'', js ''South African Airways''),
     (js ''3070'', js ''Kenya Airways''),
     (js ''3071'', js ''Ethiopian Airlines''),
     (js ''3072'', js ''Royal Air Maroc''),
     (js ''3073'', js ''Air Algerie''),
     (js ''3074'', js ''Tunisair''),
     (js ''3075'', js ''Libya Airlines''),
     (js ''3076'', js ''Nigeria Airways''),
     (js ''3077'', js ''Ghana Airways''),
     (js ''3078'', js ''Air Ivoire''),
     (js ''3079'', js ''TAAG Angola Airlines''),
     (js ''3080'', js ''Air Zimbabwe''),
     (js ''3081'', js ''Air Mauritius''),
     (js ''3082'', js ''Air Seychelles''),
     (js ''3083'', js ''Air Madagascar''),
     (js ''3084'', js ''Comair''),
     (js ''3085'', js ''Kulula''),
     (js ''3086'', js ''Mango Airlines''),
     (js ''3087'', js ''FlySafair''),
     (js ''3088'', js ''Air Botswana''),
     (js ''3089'', js ''Air Namibia''),
     (js ''3090'', js ''Precision Air''),
     (js ''3091'', js ''RwandAir''),
     (js ''3092'', js ''Uganda Airlines''),
     (js ''3093'', js ''Fly540''),
     (js ''3094'', js ''Jambojet''),
     (js ''3095'', js ''FastJet''),
     (js ''3096'', js ''Cabo Verde Airlines''),
     (js ''3097'', js ''TACV''),
     (js ''3098'', js ''Air Burkina''),
     (js ''3099'', js ''Air Mali''),
     (js ''3100'', js ''Corsair International''),
     (js ''3101'', js ''Air Austral''),
     (js ''3102'', js ''Air Caledonie International''),
     (js ''3103'', js ''Aircalin''),
     (js ''3104'', js ''Air Moana''),
     (js ''3105'', js ''Air Tahiti Nui''),
     (js ''3106'', js ''French Bee''),
     (js ''3107'', js ''Aigle Azur''),
     (js ''3108'', js ''XL Airways France''),
     (js ''3109'', js ''Transavia France''),
     (js ''3110'', js ''easyJet''),
     (js ''3111'', js ''Ryanair''),
     (js ''3112'', js ''Wizz Air''),
     (js ''3113'', js ''Norwegian Air''),
     (js ''3114'', js ''Pegasus Airlines''),
     (js ''3115'', js ''Sun Express''),
     (js ''3116'', js ''Onur Air''),
     (js ''3117'', js ''AtlasGlobal''),
     (js ''3118'', js ''Corendon Airlines''),
     (js ''3119'', js ''Flynas''),
     (js ''3120'', js ''flydubai''),
     (js ''3121'', js ''Air Arabia''),
     (js ''3122'', js ''Jazeera Airways''),
     (js ''3123'', js ''Kuwait Airways''),
     (js ''3124'', js ''Gulf Air''),
     (js ''3125'', js ''Oman Air''),
     (js ''3126'', js ''SalamAir''),
     (js ''3127'', js ''Nas Air''),
     (js ''3128'', js ''flynas''),
     (js ''3129'', js ''Middle East Airlines''),
     (js ''3130'', js ''Iraqi Airways''),
     (js ''3131'', js ''Iran Air''),
     (js ''3132'', js ''Mahan Air''),
     (js ''3133'', js ''Caspian Airlines''),
     (js ''3134'', js ''Kish Air''),
     (js ''3135'', js ''Taban Airlines''),
     (js ''3136'', js ''Qeshm Air''),
     (js ''3137'', js ''Iran Aseman Airlines''),
     (js ''3138'', js ''Zagros Airlines''),
     (js ''3139'', js ''Pouya Air''),
     (js ''3140'', js ''Varesh Airlines''),
     (js ''3141'', js ''Sepehran Airlines''),
     (js ''3142'', js ''Karun Airlines''),
     (js ''3143'', js ''Safiran Airlines''),
     (js ''3144'', js ''Kishair''),
     (js ''3145'', js ''Iran Air Tours''),
     (js ''3146'', js ''Meraj Airlines''),
     (js ''3147'', js ''Atrak Air''),
     (js ''3148'', js ''Aria Air''),
     (js ''3149'', js ''Blue Airlines''),
     (js ''3150'', js ''Fars Air Qeshm''),
     (js ''3151'', js ''Kaspian Airlines''),
     (js ''3152'', js ''Naft Airlines''),
     (js ''3153'', js ''Pars Air''),
     (js ''3154'', js ''Payam Air''),
     (js ''3155'', js ''Saha Airlines''),
     (js ''3156'', js ''Sama Airlines''),
     (js ''3157'', js ''Taftan Airlines''),
     (js ''3158'', js ''Tehran Air''),
     (js ''3159'', js ''Trigana Air''),
     (js ''3160'', js ''Wings Air''),
     (js ''3161'', js ''Indonesia AirAsia''),
     (js ''3162'', js ''Lion Air''),
     (js ''3163'', js ''Sriwijaya Air''),
     (js ''3164'', js ''Garuda Indonesia''),
     (js ''3165'', js ''Citilink''),
     (js ''3166'', js ''Batik Air''),
     (js ''3167'', js ''NAM Air''),
     (js ''3168'', js ''Super Air Jet''),
     (js ''3169'', js ''TransNusa''),
     (js ''3170'', js ''Kalstar Aviation''),
     (js ''3171'', js ''Xpress Air''),
     (js ''3172'', js ''Indonesia Air Transport''),
     (js ''3173'', js ''Cardig Air''),
     (js ''3174'', js ''Sky Aviation''),
     (js ''3175'', js ''Aviastar Mandiri''),
     (js ''3176'', js ''Tri MG Intra Asia Airlines''),
     (js ''3177'', js ''Express Air''),
     (js ''3178'', js ''My Indo Airlines''),
     (js ''3179'', js ''Mandala Airlines''),
     (js ''3180'', js ''Adam Air''),
     (js ''3181'', js ''Bouraq Indonesia Airlines''),
     (js ''3182'', js ''Jatayu Airlines''),
     (js ''3183'', js ''Dirgantara Air Service''),
     (js ''3184'', js ''Republic Express Airlines''),
     (js ''3185'', js ''Travel Express Aviation Service''),
     (js ''3186'', js ''Asian One Air''),
     (js ''3187'', js ''Premiair''),
     (js ''3188'', js ''Metro Batavia''),
     (js ''3189'', js ''Travira Air''),
     (js ''3190'', js ''Denim Air''),
     (js ''3191'', js ''Riau Airlines''),
     (js ''3192'', js ''Manunggal Air Service''),
     (js ''3193'', js ''Indonesia Air Asia X''),
     (js ''3194'', js ''Wings Abadi Airlines''),
     (js ''3195'', js ''Airfast Indonesia''),
     (js ''3196'', js ''Associated Mission Aviation''),
     (js ''3197'', js ''Pelita Air Service''),
     (js ''3198'', js ''Jhonlin Air Transport''),
     (js ''3199'', js ''Alfa Trans Dirgantara''),
     (js ''3200'', js ''Mimika Air''),
     (js ''3201'', js ''Susi Air''),
     (js ''3202'', js ''Eastindo''),
     (js ''3203'', js ''Nusantara Air Charter''),
     (js ''3204'', js ''Smart Aviation''),
     (js ''3205'', js ''Chartis Cargo''),
     (js ''3206'', js ''Indonesian Air Transport''),
     (js ''3207'', js ''Transwisata Prima Aviation''),
     (js ''3208'', js ''Explore Jet''),
     (js ''3209'', js ''Deraya Air Taxi''),
     (js ''3210'', js ''Komala Indonesia''),
     (js ''3211'', js ''Wings Air''),
     (js ''3212'', js ''Citilink Indonesia''),
     (js ''3213'', js ''Express Transportasi Antarbenua''),
     (js ''3214'', js ''Travel Express Aviation Services''),
     (js ''3215'', js ''Garuda Indonesia''),
     (js ''3216'', js ''Lion Airlines''),
     (js ''3217'', js ''Sriwijaya Air''),
     (js ''3218'', js ''Indonesia AirAsia''),
     (js ''3219'', js ''Batik Air''),
     (js ''3220'', js ''NAM Air''),
     (js ''3221'', js ''Super Air Jet''),
     (js ''3222'', js ''TransNusa''),
     (js ''3223'', js ''Kalstar Aviation''),
     (js ''3224'', js ''Xpress Air''),
     (js ''3225'', js ''Indonesia Air Transport''),
     (js ''3226'', js ''Cardig Air''),
     (js ''3227'', js ''Sky Aviation''),
     (js ''3228'', js ''Aviastar Mandiri''),
     (js ''3229'', js ''Tri MG Intra Asia Airlines''),
     (js ''3230'', js ''Express Air''),
     (js ''3231'', js ''My Indo Airlines''),
     (js ''3232'', js ''Mandala Airlines''),
     (js ''3233'', js ''Adam Air''),
     (js ''3234'', js ''Bouraq Indonesia Airlines''),
     (js ''3235'', js ''Jatayu Airlines''),
     (js ''3236'', js ''Dirgantara Air Service''),
     (js ''3237'', js ''Republic Express Airlines''),
     (js ''3238'', js ''Travel Express Aviation Service''),
     (js ''3239'', js ''Asian One Air''),
     (js ''3240'', js ''Premiair''),
     (js ''3241'', js ''Metro Batavia''),
     (js ''3242'', js ''Travira Air''),
     (js ''3243'', js ''Denim Air''),
     (js ''3244'', js ''Riau Airlines''),
     (js ''3245'', js ''Manunggal Air Service''),
     (js ''3246'', js ''Indonesia Air Asia X''),
     (js ''3247'', js ''Wings Abadi Airlines''),
     (js ''3248'', js ''Airfast Indonesia''),
     (js ''3249'', js ''Associated Mission Aviation''),
     (js ''3250'', js ''Pelita Air Service''),
     (js ''3251'', js ''Jhonlin Air Transport''),
     (js ''3252'', js ''Alfa Trans Dirgantara''),
     (js ''3253'', js ''Mimika Air''),
     (js ''3254'', js ''Susi Air''),
     (js ''3255'', js ''Eastindo''),
     (js ''3256'', js ''Nusantara Air Charter''),
     (js ''3257'', js ''Smart Aviation''),
     (js ''3258'', js ''Chartis Cargo''),
     (js ''3259'', js ''Indonesian Air Transport''),
     (js ''3260'', js ''Transwisata Prima Aviation''),
     (js ''3261'', js ''Explore Jet''),
     (js ''3262'', js ''Deraya Air Taxi''),
     (js ''3263'', js ''Komala Indonesia''),
     (js ''3264'', js ''Wings Air''),
     (js ''3265'', js ''Citilink Indonesia''),
     (js ''3266'', js ''Express Transportasi Antarbenua''),
     (js ''3267'', js ''Travel Express Aviation Services''),
     (js ''3268'', js ''Garuda Indonesia''),
     (js ''3269'', js ''Lion Airlines''),
     (js ''3270'', js ''Sriwijaya Air''),
     (js ''3271'', js ''Indonesia AirAsia''),
     (js ''3272'', js ''Batik Air''),
     (js ''3273'', js ''NAM Air''),
     (js ''3274'', js ''Super Air Jet''),
     (js ''3275'', js ''TransNusa''),
     (js ''3276'', js ''Kalstar Aviation''),
     (js ''3277'', js ''Xpress Air''),
     (js ''3278'', js ''Indonesia Air Transport''),
     (js ''3279'', js ''Cardig Air''),
     (js ''3280'', js ''Sky Aviation''),
     (js ''3281'', js ''Aviastar Mandiri''),
     (js ''3282'', js ''Tri MG Intra Asia Airlines''),
     (js ''3283'', js ''Express Air''),
     (js ''3284'', js ''My Indo Airlines''),
     (js ''3285'', js ''Mandala Airlines''),
     (js ''3286'', js ''Adam Air''),
     (js ''3287'', js ''Bouraq Indonesia Airlines''),
     (js ''3288'', js ''Jatayu Airlines''),
     (js ''3289'', js ''Dirgantara Air Service''),
     (js ''3290'', js ''Republic Express Airlines''),
     (js ''3291'', js ''Travel Express Aviation Service''),
     (js ''3292'', js ''Asian One Air''),
     (js ''3293'', js ''Premiair''),
     (js ''3294'', js ''Metro Batavia''),
     (js ''3295'', js ''Travira Air''),
     (js ''3296'', js ''Denim Air''),
     (js ''3297'', js ''Riau Airlines''),
     (js ''3298'', js ''Manunggal Air Service''),
     (js ''3299'', js ''Indonesia Air Asia X''),
     (js ''3351'', js ''Alamo Rent A Car''),
     (js ''3352'', js ''Avis''),
     (js ''3353'', js ''Budget Rent-A-Car''),
     (js ''3354'', js ''Discount Car Rental''),
     (js ''3355'', js ''Hertz''),
     (js ''3356'', js ''National Car Rental''),
     (js ''3357'', js ''Payless Car Rental''),
     (js ''3359'', js ''Enterprise Rent-A-Car''),
     (js ''3360'', js ''Dollar Rent A Car''),
     (js ''3361'', js ''Europcar''),
     (js ''3362'', js ''Sixt Rent A Car''),
     (js ''3363'', js ''Thrifty Car Rental''),
     (js ''3364'', js ''Zipcar''),
     (js ''3365'', js ''Turo''),
     (js ''3366'', js ''RelayRides''),
     (js ''3367'', js ''Car2Go''),
     (js ''3368'', js ''DriveNow''),
     (js ''3369'', js ''Maven''),
     (js ''3370'', js ''ReachNow''),
     (js ''3371'', js ''Book by Cadillac''),
     (js ''3372'', js ''Fair''),
     (js ''3373'', js ''Getaround''),
     (js ''3374'', js ''HyreCar''),
     (js ''3375'', js ''Spinlister''),
     (js ''3376'', js ''JustShareIt''),
     (js ''3377'', js ''Outdoorsy''),
     (js ''3378'', js ''RVshare''),
     (js ''3379'', js ''Cruise America''),
     (js ''3380'', js ''El Monte RV''),
     (js ''3381'', js ''Road Bear RV''),
     (js ''3382'', js ''Apollo RV''),
     (js ''3383'', js ''Mighty Campers''),
     (js ''3384'', js ''Jucy Rentals''),
     (js ''3385'', js ''Escape Campervans''),
     (js ''3386'', js ''Lost Campers''),
     (js ''3387'', js ''Wicked Campers''),
     (js ''3388'', js ''Britz''),
     (js ''3389'', js ''Maui''),
     (js ''3390'', js ''Cheapa Campa''),
     (js ''3391'', js ''Hippie Camper''),
     (js ''3392'', js ''Spaceships Rentals''),
     (js ''3393'', js ''Travellers Autobarn''),
     (js ''3394'', js ''Backpacker Campervans''),
     (js ''3395'', js ''Lucky Rentals''),
     (js ''3396'', js ''East Coast Car Rentals''),
     (js ''3397'', js ''Redspot Car Rentals''),
     (js ''3398'', js ''Alpha Car Hire''),
     (js ''3399'', js ''Ace Rental Cars''),
     (js ''3501'', js ''Holiday Inns, Holiday Inn Express''),
     (js ''3502'', js ''Best Western''),
     (js ''3503'', js ''Sheraton''),
     (js ''3504'', js ''Hilton''),
     (js ''3505'', js ''Forte Hotels''),
     (js ''3506'', js ''Golden Tulip Hotels''),
     (js ''3507'', js ''Friendship Inns''),
     (js ''3508'', js ''Quality Inns, Hotels, and Suites''),
     (js ''3509'', js ''Marriott''),
     (js ''3510'', js ''Days Inn''),
     (js ''3511'', js ''Arabella Hotels''),
     (js ''3512'', js ''Inter-Continental Hotels''),
     (js ''3513'', js ''Westin Hotels''),
     (js ''3514'', js ''Amerisuites''),
     (js ''3515'', js ''Rodeway Inn''),
     (js ''3516'', js ''La Quinta Motor Inns''),
     (js ''3517'', js ''Americana Hotels''),
     (js ''3518'', js ''Sol Hotels''),
     (js ''3519'', js ''Pullman International Hotels''),
     (js ''3520'', js ''Meridien Hotels''),
     (js ''3521'', js ''Cham pace Hotels''),
     (js ''3522'', js ''Granding Hotels International''),
     (js ''3523'', js ''Penta Hotels''),
     (js ''3524'', js ''Hungar Hotels''),
     (js ''3525'', js ''Husa Hotels''),
     (js ''3526'', js ''Accor Hotels''),
     (js ''3527'', js ''Balladins Hotels''),
     (js ''3528'', js ''Red Roof Inns''),
     (js ''3529'', js ''Imperial London Hotels''),
     (js ''3530'', js ''Embassy Suites''),
     (js ''3531'', js ''Penta Hotels''),
     (js ''3532'', js ''Dorint Hotels''),
     (js ''3533'', js ''Arcade Hotels''),
     (js ''3534'', js ''Loews Hotels''),
     (js ''3535'', js ''Forum Hotels''),
     (js ''3536'', js ''Hospitality International''),
     (js ''3537'', js ''Shangri-La International''),
     (js ''3538'', js ''Thistle Hotels''),
     (js ''3539'', js ''Summit International''),
     (js ''3540'', js ''Hyatt Hotels and Resorts''),
     (js ''3541'', js ''Sofitel Hotels''),
     (js ''3542'', js ''Novotel Hotels''),
     (js ''3543'', js ''Steigenberger Hotels''),
     (js ''3544'', js ''Econo Lodge''),
     (js ''3545'', js ''Choice Hotels''),
     (js ''3546'', js ''Clarion Hotels''),
     (js ''3547'', js ''Comfort Inn''),
     (js ''3548'', js ''Quality International''),
     (js ''3549'', js ''Hotel Ibis''),
     (js ''3550'', js ''Summit Hotels''),
     (js ''3551'', js ''Homewood Suites''),
     (js ''3552'', js ''Embassy Suites Hotels''),
     (js ''3553'', js ''Hampton Inn''),
     (js ''3554'', js ''Courtyard by Marriott''),
     (js ''3555'', js ''Compri Hotels''),
     (js ''3556'', js ''Stouffer Hotels''),
     (js ''3557'', js ''Hilton International''),
     (js ''3558'', js ''Concorde Hotels''),
     (js ''3559'', js ''Hotel Mercure''),
     (js ''3560'', js ''Pannonia Hotels''),
     (js ''3561'', js ''Hungar Hotels''),
     (js ''3562'', js ''IBUSZ Hotels''),
     (js ''3563'', js ''Reso Hotels''),
     (js ''3564'', js ''Hotel Volksturm''),
     (js ''3565'', js ''Hotel Kempinski''),
     (js ''3566'', js ''Hotel Okura''),
     (js ''3567'', js ''Royal Hotels''),
     (js ''3568'', js ''Four Seasons Hotels''),
     (js ''3569'', js ''Oberoi Hotels''),
     (js ''3570'', js ''Hotel Taipei''),
     (js ''3571'', js ''Relais Hotels''),
     (js ''3572'', js ''Hotel Breakers''),
     (js ''3573'', js ''Hotel Admiral''),
     (js ''3574'', js ''Best Eastern Hotels''),
     (js ''3575'', js ''Great Eastern Hotels''),
     (js ''3576'', js ''Tree Tops Hotels''),
     (js ''3577'', js ''Sandman Inns''),
     (js ''3578'', js ''venture Inns''),
     (js ''3579'', js ''Baymont Inns''),
     (js ''3580'', js ''Midway Motor Lodge''),
     (js ''3581'', js ''Red Carpet Inn''),
     (js ''3582'', js ''Imperial 400 Motor Inn''),
     (js ''3583'', js ''Canadian Pacific Hotels''),
     (js ''3584'', js ''Welcomed Group Hotels''),
     (js ''3585'', js ''Hotel Taj''),
     (js ''3586'', js ''Auberge des Gouverneurs''),
     (js ''3587'', js ''Hotel Gouverneur''),
     (js ''3588'', js ''Delta Hotels''),
     (js ''3589'', js ''Paradise stream Resort''),
     (js ''3590'', js ''Hotel la Sapinette''),
     (js ''3591'', js ''Hotel Quebec''),
     (js ''3592'', js ''Hotel Asia''),
     (js ''3593'', js ''Hotel Polo''),
     (js ''3594'', js ''Hotel Indreni''),
     (js ''3595'', js ''Mount Everest Hotel''),
     (js ''3596'', js ''Hotel Narayani''),
     (js ''3597'', js ''Hotel Taragaon''),
     (js ''3598'', js ''Hotel Malla''),
     (js ''3599'', js ''Hotel Himalaya''),
     (js ''4011'', js ''Railroads''),
     (js ''4111'', js ''Local/Suburban Commuter Passenger Transportation''),
     (js ''4112'', js ''Passenger Railway''),
     (js ''4119'', js ''Ambulance Services''),
     (js ''4121'', js ''Taxicabs and Limousines''),
     (js ''4131'', js ''Bus Lines''),
     (js ''4214'', js ''Motor Freight Carriers and Trucking - Local and Long Distance''),
     (js ''4215'', js ''Courier Services - Air and Ground''),
     (js ''4225'', js ''Public Warehousing and Storage - Farm Products, Refrigerated Goods and Household Goods''),
     (js ''4411'', js ''Steamship and Cruise Lines''),
     (js ''4457'', js ''Boat Rentals and Leases''),
     (js ''4468'', js ''Marinas, Service and Supplies''),
     (js ''4511'', js ''Airlines and Air Carriers - Not Elsewhere Classified''),
     (js ''4582'', js ''Airports, Flying Fields and Airport Terminals''),
     (js ''4722'', js ''Travel Agencies and Tour Operators''),
     (js ''4723'', js ''TUI Travel - Germany''),
     (js ''4724'', js ''Thomas Cook Travel - Germany''),
     (js ''4725'', js ''American Express Travel Service''),
     (js ''4726'', js ''Carlson Wagonlit Travel''),
     (js ''4727'', js ''Rosenbluth International''),
     (js ''4728'', js ''Welcome Group - India''),
     (js ''4729'', js ''Staff Tours - Hong Kong''),
     (js ''4730'', js ''Trafalgar Tours''),
     (js ''4731'', js ''Gray Line Bus Tours''),
     (js ''4732'', js ''Creative Tours''),
     (js ''4733'', js ''Cosmos/Globus Gateway''),
     (js ''4734'', js ''Tourico Holidays''),
     (js ''4735'', js ''Japan Creative Tours''),
     (js ''4736'', js ''Brendan Tours''),
     (js ''4737'', js ''Collette Tours''),
     (js ''4738'', js ''DER Travel Service''),
     (js ''4739'', js ''Yankee Holidays''),
     (js ''4740'', js ''Grand Circle Travel''),
     (js ''4741'', js ''Maupintour''),
     (js ''4742'', js ''CIE Tours International''),
     (js ''4743'', js ''Korean Air Holidays''),
     (js ''4744'', js ''Siesta Tours''),
     (js ''4745'', js ''Virgin Holidays''),
     (js ''4746'', js ''British Airways Holidays''),
     (js ''4747'', js ''American Airlines Vacations''),
     (js ''4748'', js ''Continental Airlines Vacations''),
     (js ''4749'', js ''Delta Vacations''),
     (js ''4750'', js ''United Airlines Vacations''),
     (js ''4751'', js ''Funway Holidays''),
     (js ''4752'', js ''Liberty Travel''),
     (js ''4753'', js ''Pleasant Holidays''),
     (js ''4754'', js ''Club Med Sales''),
     (js ''4755'', js ''GOGO Tours''),
     (js ''4756'', js ''Globus Gateway''),
     (js ''4757'', js ''Cosmos Tours''),
     (js ''4758'', js ''Insight Vacations''),
     (js ''4759'', js ''Trafalgar Tours''),
     (js ''4760'', js ''Contiki Holidays''),
     (js ''4761'', js ''Top Deck Tours''),
     (js ''4762'', js ''Busabout''),
     (js ''4763'', js ''Stray Travel''),
     (js ''4764'', js ''Kiwi Experience''),
     (js ''4765'', js ''Flying Kiwi''),
     (js ''4766'', js ''Wayward Bus''),
     (js ''4767'', js ''Haggis Adventures''),
     (js ''4768'', js ''MacBackpackers''),
     (js ''4769'', js ''Wild Rover Tours''),
     (js ''4770'', js ''Shamrocker Adventures''),
     (js ''4771'', js ''Paddywagon Tours''),
     (js ''4772'', js ''Irish Day Tours''),
     (js ''4773'', js ''Rabbie'' @ [0x0027] @ js ''s Trail Burners''),
     (js ''4774'', js ''Timbuktu Travel''),
     (js ''4775'', js ''Heart of Scotland Tours''),
     (js ''4776'', js ''Jacobite Tours''),
     (js ''4777'', js ''Highland Explorer Tours''),
     (js ''4778'', js ''Citylink''),
     (js ''4779'', js ''National Express''),
     (js ''4780'', js ''Megabus''),
     (js ''4781'', js ''Coach USA''),
     (js ''4782'', js ''Peter Pan Bus Lines''),
     (js ''4783'', js ''Adirondack Trailways''),
     (js ''4784'', js ''Carolina Trailways''),
     (js ''4785'', js ''Indian Trails''),
     (js ''4786'', js ''Jefferson Lines''),
     (js ''4787'', js ''New Jersey Transit''),
     (js ''4788'', js ''Lakefront Lines''),
     (js ''4789'', js ''Vermont Transit''),
     (js ''4790'', js ''Concord Coach Lines''),
     (js ''4791'', js ''C&J Trailways''),
     (js ''4792'', js ''Bonanza Bus Lines''),
     (js ''4793'', js ''Plymouth & Brockton''),
     (js ''4794'', js ''Southeastern Stages''),
     (js ''4795'', js ''Tornado Bus''),
     (js ''4796'', js ''El Paso-Los Angeles Limousine Express''),
     (js ''4797'', js ''Crucero Express''),
     (js ''4798'', js ''Omnibus Mexicanos''),
     (js ''4799'', js ''Transportes del Norte''),
     (js ''4812'', js ''Telecommunication Equipment and Telephone Sales''),
     (js ''4814'', js ''Telecommunication Services''),
     (js ''4815'', js ''Monthly Summary Telephone Charges''),
     (js ''4816'', js ''Computer Network Services''),
     (js ''4821'', js ''Telegraph Services''),
     (js ''4829'', js ''Wires, Money Orders - Not Elsewhere Classified''),
     (js ''4900'', js ''Utilities - Electric, Gas, Water, and Sanitary''),
     (js ''5013'', js ''Motor Vehicle Supplies and New Parts''),
     (js ''5021'', js ''Office and Commercial Furniture''),
     (js ''5039'', js ''Construction Materials - Not Elsewhere Classified''),
     (js ''5044'', js ''Office, Photographic, Photocopy and Microfilm Equipment''),
     (js ''5045'', js ''Computers, Computer Peripheral Equipment - Not Elsewhere Classified''),
     (js ''5046'', js ''Commercial Equipment - Not Elsewhere Classified''),
     (js ''5047'', js ''Medical, Dental, Ophthalmic and Hospital Equipment and Supplies''),
     (js ''5051'', js ''Metal Service Centers and Offices''),
     (js ''5065'', js ''Electrical Parts and Equipment''),
     (js ''5072'', js ''Hardware, Equipment and Supplies''),
     (js ''5074'', js ''Plumbing and Heating Equipment and Supplies''),
     (js ''5085'', js ''Industrial Supplies - Not Elsewhere Classified''),
     (js ''5094'', js ''Precious Stones and Metals, Watches and Jewelry''),
     (js ''5099'', js ''Durable Goods - Not Elsewhere Classified''),
     (js ''5111'', js ''Stationery, Office Supplies, Printing and Writing Paper''),
     (js ''5122'', js ''Drugs, Drug Proprietaries and Druggist'' @ [0x0027] @ js ''s Sundries''),
     (js ''5131'', js ''Piece Goods, Notions and Other Dry Goods''),
     (js ''5137'', js ''Uniforms, Commercial Clothing''),
     (js ''5139'', js ''Commercial Footwear''),
     (js ''5169'', js ''Chemicals and Allied Products - Not Elsewhere Classified''),
     (js ''5172'', js ''Petroleum and Petroleum Products''),
     (js ''5192'', js ''Books, Periodicals and Newspapers''),
     (js ''5193'', js ''Florists'' @ [0x0027] @ js '' Supplies, Nursery Stock and Flowers''),
     (js ''5198'', js ''Paints, Varnishes and Supplies''),
     (js ''5199'', js ''Non-durable Goods - Not Elsewhere Classified''),
     (js ''5200'', js ''Home Supply Warehouse Stores''),
     (js ''5211'', js ''Lumber and Building Materials Stores''),
     (js ''5231'', js ''Paint, Glass and Wallpaper Stores''),
     (js ''5251'', js ''Hardware Stores''),
     (js ''5261'', js ''Nurseries, Lawn and Garden Supply Stores''),
     (js ''5271'', js ''Mobile Home Dealers''),
     (js ''5300'', js ''Wholesale Clubs''),
     (js ''5309'', js ''Duty Free Stores''),
     (js ''5310'', js ''Discount Stores''),
     (js ''5311'', js ''Department Stores''),
     (js ''5331'', js ''Variety Stores''),
     (js ''5399'', js ''Miscellaneous General Merchandise''),
     (js ''5411'', js ''Grocery Stores, Supermarkets''),
     (js ''5422'', js ''Freezer and Locker Meat Provisioners''),
     (js ''5441'', js ''Candy, Nut and Confectionery Stores''),
     (js ''5451'', js ''Dairy Products Stores''),
     (js ''5462'', js ''Bakeries''),
     (js ''5499'', js ''Miscellaneous Food Stores - Convenience Stores and Specialty Markets''),
     (js ''5511'', js ''Car and Truck Dealers (New and Used) Sales, Service, Repairs Parts and Leasing''),
     (js ''5521'', js ''Car and Truck Dealers (Used Only) Sales, Service, Repairs Parts and Leasing''),
     (js ''5531'', js ''Auto and Home Supply Stores''),
     (js ''5532'', js ''Automotive Tire Stores''),
     (js ''5533'', js ''Automotive Parts and Accessories Stores''),
     (js ''5541'', js ''Service Stations (with or without ancillary services)''),
     (js ''5542'', js ''Automated Fuel Dispensers''),
     (js ''5551'', js ''Boat Dealers''),
     (js ''5561'', js ''Camper, Recreational and Utility Trailer Dealers''),
     (js ''5571'', js ''Motorcycle Shops and Dealers''),
     (js ''5592'', js ''Motor Homes Dealers''),
     (js ''5598'', js ''Snowmobile Dealers''),
     (js ''5599'', js ''Miscellaneous Automotive, Aircraft and Farm Equipment Dealers - Not Elsewhere Classified''),
     (js ''5611'', js ''Men'' @ [0x0027] @ js ''s and Boys'' @ [0x0027] @ js '' Clothing and Accessory Stores''),
     (js ''5621'', js ''Women'' @ [0x0027] @ js ''s Ready-to-Wear Stores''),
     (js ''5631'', js ''Women'' @ [0x0027] @ js ''s Accessory and Specialty Shops''),
     (js ''5641'', js ''Children'' @ [0x0027] @ js ''s and Infants'' @ [0x0027] @ js '' Wear Stores''),
     (js ''5651'', js ''Family Clothing Stores''),
     (js ''5655'', js ''Sports and Riding Apparel Stores''),
     (js ''5661'', js ''Shoe Stores''),
     (js ''5681'', js ''Furriers and Fur Shops''),
     (js ''5691'', js ''Men'' @ [0x0027] @ js ''s and Women'' @ [0x0027] @ js ''s Clothing Stores''),
     (js ''5697'', js ''Tailors, Alterations''),
     (js ''5698'', js ''Wig and Toupee Stores''),
     (js ''5699'', js ''Miscellaneous Apparel and Accessory Shops''),
     (js ''5712'', js ''Furniture, Home Furnishings and Equipment Stores and Manufacturers, Except Appliances''),
     (js ''5713'', js ''Floor Covering Stores''),
     (js ''5714'', js ''Drapery, Window Covering and Upholstery Stores''),
     (js ''5718'', js ''Fireplace, Fireplace Screens and Accessories Stores''),
     (js ''5719'', js ''Miscellaneous Home Furnishing Specialty Stores''),
     (js ''5722'', js ''Household Appliance Stores''),
     (js ''5732'', js ''Electronics Stores''),
     (js ''5733'', js ''Music Stores - Musical Instruments, Pianos and Sheet Music''),
     (js ''5734'', js ''Computer Software Stores''),
     (js ''5735'', js ''Record Stores''),
     (js ''5811'', js ''Caterers''),
     (js ''5812'', js ''Eating Places and Restaurants''),
     (js ''5813'', js ''Drinking Places (Alcoholic Beverages) - Bars, Taverns, Nightclubs, Cocktail Lounges and Discotheques''),
     (js ''5814'', js ''Fast Food Restaurants''),
     (js ''5912'', js ''Drug Stores and Pharmacies''),
     (js ''5921'', js ''Package Stores - Beer, Wine and Liquor''),
     (js ''5931'', js ''Used Merchandise and Secondhand Stores''),
     (js ''5932'', js ''Antique Shops''),
     (js ''5933'', js ''Pawn Shops''),
     (js ''5935'', js ''Wrecking and Salvage Yards''),
     (js ''5937'', js ''Antique Reproductions''),
     (js ''5940'', js ''Bicycle Shops''),
     (js ''5941'', js ''Sporting Goods Stores''),
     (js ''5942'', js ''Book Stores''),
     (js ''5943'', js ''Stationery Stores, Office and School Supply Stores''),
     (js ''5944'', js ''Jewelry Stores, Watches, Clocks and Silverware Stores''),
     (js ''5945'', js ''Toy and Hobby Shops''),
     (js ''5946'', js ''Camera and Photographic Supply Stores''),
     (js ''5947'', js ''Gift, Card, Novelty and Souvenir Shops''),
     (js ''5948'', js ''Luggage and Leather Goods Stores''),
     (js ''5949'', js ''Sewing, Needlework, Fabric and Piece Goods Stores''),
     (js ''5950'', js ''Glassware, Crystal Stores''),
     (js ''5960'', js ''Direct Marketing - Insurance Services''),
     (js ''5962'', js ''Direct Marketing - Travel Related Arrangement Services''),
     (js ''5963'', js ''Door-to-Door Sales''),
     (js ''5964'', js ''Direct Marketing - Catalog Merchant''),
     (js ''5965'', js ''Direct Marketing - Combination Catalog and Retail Merchant''),
     (js ''5966'', js ''Direct Marketing - Outbound Telemarketing Merchant''),
     (js ''5967'', js ''Direct Marketing - Inbound Telemarketing Merchant''),
     (js ''5968'', js ''Direct Marketing - Continuity/Subscription Merchants''),
     (js ''5969'', js ''Direct Marketing - Not Elsewhere Classified''),
     (js ''5970'', js ''Artist'' @ [0x0027] @ js ''s Supply and Craft Shops''),
     (js ''5971'', js ''Art Dealers and Galleries''),
     (js ''5972'', js ''Stamp and Coin Stores''),
     (js ''5973'', js ''Religious Goods Stores''),
     (js ''5975'', js ''Hearing Aids Sales and Supplies''),
     (js ''5976'', js ''Orthopedic Goods - Prosthetic Devices''),
     (js ''5977'', js ''Cosmetics Stores''),
     (js ''5978'', js ''Typewriter Stores - Rental, Sales and Service''),
     (js ''5983'', js ''Fuel Dealers - Non Automotive - Coal, Fuel Oil, Liquefied Petroleum, Wood''),
     (js ''5992'', js ''Florists''),
     (js ''5993'', js ''Cigar Stores and Stands''),
     (js ''5994'', js ''News Dealers and Newsstands''),
     (js ''5995'', js ''Pet Shops, Pet Food and Supplies''),
     (js ''5996'', js ''Swimming Pools Sales''),
     (js ''5997'', js ''Electric Razor Stores''),
     (js ''5998'', js ''Tent and Awning Shops''),
     (js ''5999'', js ''Miscellaneous Specialty Retail''),
     (js ''7011'', js ''Hotels, Motels and Resorts''),
     (js ''7012'', js ''Timeshares''),
     (js ''7032'', js ''Sporting and Recreational Camps''),
     (js ''7033'', js ''Trailer Parks and Campgrounds''),
     (js ''7210'', js ''Laundry, Cleaning and Garment Services''),
     (js ''7211'', js ''Laundries''),
     (js ''7216'', js ''Dry Cleaners''),
     (js ''7217'', js ''Carpet and Upholstery Cleaning''),
     (js ''7221'', js ''Photographic Studios''),
     (js ''7230'', js ''Barber and Beauty Shops''),
     (js ''7251'', js ''Shoe Repair/Shoe Shine''),
     (js ''7261'', js ''Funeral Service and Crematories''),
     (js ''7273'', js ''Dating/Escort Services''),
     (js ''7276'', js ''Tax Preparation Services''),
     (js ''7277'', js ''Debt Counseling Services''),
     (js ''7278'', js ''Buying/Shopping Services''),
     (js ''7296'', js ''Clothing Rental''),
     (js ''7297'', js ''Massage Parlors''),
     (js ''7298'', js ''Health and Beauty Spas''),
     (js ''7299'', js ''Miscellaneous Personal Services - Not Elsewhere Classified''),
     (js ''7311'', js ''Advertising Services''),
     (js ''7321'', js ''Consumer Credit Reporting Agencies''),
     (js ''7322'', js ''Debt Collection Agencies''),
     (js ''7333'', js ''Commercial Photography, Art and Graphics''),
     (js ''7338'', js ''Quick Copy, Repro and Blueprint''),
     (js ''7339'', js ''Stenographic and Secretarial Support Services''),
     (js ''7342'', js ''Exterminating Services''),
     (js ''7349'', js ''Cleaning and Maintenance''),
     (js ''7361'', js ''Employment/Temp Agencies''),
     (js ''7372'', js ''Computer Programming''),
     (js ''7375'', js ''Information Retrieval Services''),
     (js ''7379'', js ''Computer Maintenance and Repair Services - Not Elsewhere Classified''),
     (js ''7392'', js ''Consulting, Public Relations and Management Services''),
     (js ''7393'', js ''Detective Agencies''),
     (js ''7394'', js ''Equipment Rental''),
     (js ''7395'', js ''Photo Developing''),
     (js ''7399'', js ''Business Services - Not Elsewhere Classified''),
     (js ''8011'', js ''Doctors''),
     (js ''8021'', js ''Dentists and Orthodontists''),
     (js ''8031'', js ''Osteopaths''),
     (js ''8041'', js ''Chiropractors''),
     (js ''8042'', js ''Optometrists, Ophthalmologist''),
     (js ''8043'', js ''Opticians, Eyeglasses and Contact Lenses''),
     (js ''8049'', js ''Podiatrists, Chiropodists''),
     (js ''8050'', js ''Nursing/Personal Care''),
     (js ''8062'', js ''Hospitals''),
     (js ''8071'', js ''Medical and Dental Labs''),
     (js ''8099'', js ''Medical Services''),
     (js ''8111'', js ''Legal Services and Attorneys''),
     (js ''8211'', js ''Elementary, Secondary Schools''),
     (js ''8220'', js ''Colleges, Universities''),
     (js ''8241'', js ''Correspondence Schools''),
     (js ''8244'', js ''Business and Secretarial Schools''),
     (js ''8249'', js ''Vocational/Trade Schools''),
     (js ''8299'', js ''Educational Services - Not Elsewhere Classified''),
     (js ''8351'', js ''Child Care Services''),
     (js ''8398'', js ''Charitable and Social Service Organizations - Fundraising''),
     (js ''8641'', js ''Civic, Social, Fraternal Associations''),
     (js ''8651'', js ''Political Organizations''),
     (js ''8661'', js ''Religious Organizations''),
     (js ''8675'', js ''Automobile Associations''),
     (js ''8699'', js ''Membership Organizations - Not Elsewhere Classified''),
     (js ''9211'', js ''Court Costs, Including Alimony and Child Support - Courts of Law''),
     (js ''9222'', js ''Fines - Government Administrative Entities''),
     (js ''9311'', js ''Tax Assessments - Government Administrative Entities''),
     (js ''9399'', js ''Government Services - Not Elsewhere Classified''),
     (js ''9401'', js ''Intra-Government Purchases - Government Only''),
     (js ''9402'', js ''Postal Services - Government Only''),
     (js ''9405'', js ''U.S. Federal Government Agencies or Departments'')
   ]"

section \<open>Field names and value decorators\<close>

text \<open>The expression \<open>KLVParser.definitions[key] || 'Unknown'\<close> of \<open>parse\<close>.\<close>

definition lookupFieldName :: "jsstring \<Rightarrow> jsstring jsval" where
  "lookupFieldName k =
     (let d = getProp definitions k in if truthy d then d else Val (js ''Unknown''))"

text \<open>
  The reads \<open>currency.flag\<close>, \<open>currency.code\<close> and \<open>currency.name\<close> on what
  \<open>currencyMapping[k]\<close> returned: the field of a table row; \<open>undefined\<close> or the function's name
  on an inherited member, which has no \<open>flag\<close> and no \<open>code\<close>; a \<open>TypeError\<close> on
  \<open>undefined\<close>.
\<close>

definition currency_flag :: "Currency jsval \<Rightarrow> exn + jsstring jsval" where
  "currency_flag c =
     (case c of
        Val r \<Rightarrow> Inr (Val (Currency.flag r))
      | Undefined \<Rightarrow> Inl TypeError
      | Builtin p \<Rightarrow> Inr Undefined)"

definition currency_code :: "Currency jsval \<Rightarrow> exn + jsstring jsval" where
  "currency_code c =
     (case c of
        Val r \<Rightarrow> Inr (Val (Currency.code r))
      | Undefined \<Rightarrow> Inl TypeError
      | Builtin p \<Rightarrow> Inr Undefined)"

definition currency_name :: "Currency jsval \<Rightarrow> exn + jsstring jsval" where
  "currency_name c =
     (case c of
        Val r \<Rightarrow> Inr (Val (Currency.name r))
      | Undefined \<Rightarrow> Inl TypeError
      | Builtin p \<Rightarrow> Inr (memberName p))"

definition formatCurrency :: "jsstring \<Rightarrow> jsstring \<Rightarrow> exn + CurrencyFormat option" where
  "formatCurrency v k =
     (if k \<noteq> js ''049'' then Inr None
      else
        let paddedValue = padStart 3 0x30 v;
            currency = getProp currencyMapping paddedValue
        in if currency \<noteq> Undefined then
             (case currency_flag currency of Inl x \<Rightarrow> Inl x | Inr fl \<Rightarrow>
              case currency_code currency of Inl x \<Rightarrow> Inl x | Inr cd \<Rightarrow>
              case currency_name currency of Inl x \<Rightarrow> Inl x | Inr nm \<Rightarrow>
                Inr (Some \<lparr>CurrencyFormat.formattedValue =
                              template fl @ js '' '' @ template cd @ js '' - '' @ template nm,
                            CurrencyFormat.currencyInfo =
                              Some \<lparr>CurrencyInfo.code = cd, CurrencyInfo.name = nm,
                                    CurrencyInfo.flag = fl\<rparr>\<rparr>))
           else
             Inr (Some \<lparr>CurrencyFormat.formattedValue = v @ js '' (Unknown Currency Code)'',
                         CurrencyFormat.currencyInfo = None\<rparr>))"

text \<open>\<open>formatMCC\<close> reads no property of a value that may be \<open>undefined\<close>.\<close>

definition formatMCC :: "jsstring \<Rightarrow> jsstring \<Rightarrow> MccFormat option" where
  "formatMCC v k =
     (if k \<noteq> js ''026'' then None
      else
        let paddedValue = padStart 4 0x30 v;
            mcc = getProp mccMapping paddedValue
        in if truthy mcc then
             Some \<lparr>MccFormat.formattedValue = paddedValue @ js '' - '' @ template mcc,
                   MccFormat.mccInfo = Some \<lparr>MccInfo.code = paddedValue, description = mcc\<rparr>\<rparr>
           else
             Some \<lparr>MccFormat.formattedValue = paddedValue @ js '' (Unknown MCC)'',
                   MccFormat.mccInfo = None\<rparr>)"

section \<open>Parser, validator, builder, exporter\<close>

text \<open>
  The entry that one iteration of \<open>parse\<close> pushes: the object literal with the field name,
  then the currency decoration, then the MCC decoration. An exception of \<open>formatCurrency\<close>
  leaves the iteration.
\<close>

definition makeEntry :: "jsstring \<Rightarrow> nat \<Rightarrow> jsstring \<Rightarrow> nat \<Rightarrow> exn + KLVEntry" where
  "makeEntry k n v p =
     (let entry = \<lparr>KLVEntry.key = k, len = n, KLVEntry.value = v, pos = p,
                   KLVEntry.name = lookupFieldName k,
                   KLVEntry.formattedValue = None,
                   KLVEntry.currencyInfo = None, KLVEntry.mccInfo = None\<rparr>
      in case formatCurrency v k of
           Inl x \<Rightarrow> Inl x
         | Inr currencyFormat \<Rightarrow>
             let entry1 = (case currencyFormat of
                             None \<Rightarrow> entry
                           | Some cf \<Rightarrow>
                               entry\<lparr>KLVEntry.formattedValue :=
                                        Some (CurrencyFormat.formattedValue cf),
                                     KLVEntry.currencyInfo := CurrencyFormat.currencyInfo cf\<rparr>);
                 entry2 = (case formatMCC v k of
                             None \<Rightarrow> entry1
                           | Some mccFormat \<Rightarrow>
                               entry1\<lparr>KLVEntry.formattedValue :=
                                         Some (MccFormat.formattedValue mccFormat),
                                      KLVEntry.mccInfo := MccFormat.mccInfo mccFormat\<rparr>)
             in Inr entry2)"

text \<open>
  The \<open>while\<close> loop of \<open>parse\<close>, with its variables \<open>pos\<close>, \<open>results\<close> and \<open>errors\<close> as
  the arguments \<open>p\<close>, \<open>rs\<close> and \<open>es\<close> (the source's names are those of record fields here;
  likewise \<open>k\<close>, \<open>n\<close> and \<open>v\<close> for \<open>key\<close>, \<open>len\<close> and \<open>value\<close>). Each \<open>break\<close> returns
  what has been collected. The recursion is on a position that grows by at least 5 and stays
  within the buffer.
\<close>

function parse_loop ::
  "jsstring \<Rightarrow> nat \<Rightarrow> KLVEntry list \<Rightarrow> jsstring list \<Rightarrow> exn + KLVParseResult" where
  "parse_loop clean p rs es =
     (if p < length clean then
        if p + 5 > length clean then
          Inr \<lparr>results = rs,
               KLVParseResult.errors = es @ [js ''Incomplete entry at position '' @ toString p]\<rparr>
        else
          let k = substring clean p (p + 3);
              lenStr = substring clean (p + 3) (p + 5)
          in if \<not> test_d3 k \<or> \<not> test_d2 lenStr then
               Inr \<lparr>results = rs,
                    KLVParseResult.errors =
                      es @ [js ''Invalid format at position '' @ toString p]\<rparr>
             else
               let n = parseInt lenStr;
                   valEnd = p + 5 + n
               in if valEnd > length clean then
                    Inr \<lparr>results = rs,
                         KLVParseResult.errors =
                           es @ [js ''Incomplete value at position '' @ toString (p + 5)]\<rparr>
                  else
                    let v = substring clean (p + 5) (p + 5 + n)
                    in case makeEntry k n v p of
                         Inl x \<Rightarrow> Inl x
                       | Inr entry \<Rightarrow> parse_loop clean valEnd (rs @ [entry]) es
      else Inr \<lparr>results = rs, KLVParseResult.errors = es\<rparr>)"
  by pat_completeness auto
termination
  by (relation "measure (\<lambda>(clean, p, rs, es). length clean - p)") auto

declare parse_loop.simps [simp del]

definition parse :: "jsstring \<Rightarrow> exn + KLVParseResult" where
  "parse klvString = parse_loop (stripWhitespace klvString) 0 [] []"

definition validate :: "jsstring \<Rightarrow> exn + KLVValidationResult" where
  "validate klvString =
     (case parse klvString of
        Inl x \<Rightarrow> Inl x
      | Inr r \<Rightarrow>
          Inr \<lparr>isValid = (length (KLVParseResult.errors r) = 0),
               entriesCount = length (results r),
               KLVValidationResult.errors = KLVParseResult.errors r,
               totalLength = length (stripWhitespace klvString)\<rparr>)"

definition build :: "KLVBuildEntry list \<Rightarrow> jsstring" where
  "build entries =
     join []
       (map (\<lambda>entry.
               let k = padStart 3 0x30 (KLVBuildEntry.key entry);
                   l = padStart 2 0x30 (toString (length (KLVBuildEntry.value entry)))
               in k @ l @ KLVBuildEntry.value entry)
            (filter (\<lambda>entry. KLVBuildEntry.key entry \<noteq> [] \<and> KLVBuildEntry.value entry \<noteq> [])
               entries))"

text \<open>
  The \<open>'csv'\<close> case of \<open>export\<close>, on entries whose \<open>len\<close> and \<open>pos\<close> are non-negative
  integers, as \<open>parse\<close> produces them.
\<close>

definition export_csv :: "KLVEntry list \<Rightarrow> jsstring" where
  "export_csv rs =
     (let headers = js ''Key,Name,Length,Value,Position'' @ [0x0A];
          rows = join [0x0A]
                   (map (\<lambda>r. [0x22] @ KLVEntry.key r @ [0x22, 0x2C, 0x22] @
                              template (KLVEntry.name r) @ [0x22, 0x2C, 0x22] @
                              toString (len r) @ [0x22, 0x2C, 0x22] @
                              KLVEntry.value r @ [0x22, 0x2C, 0x22] @
                              toString (pos r) @ [0x22])
                        rs)
      in headers @ rows)"

section \<open>The builder and the tabular export as the specification words them\<close>

text \<open>
  Drop every entry whose key or value is empty; for each other entry emit the key padded to
  three characters, the length of the value in decimal padded to two, and the value.
\<close>

fun build_spec :: "KLVBuildEntry list \<Rightarrow> jsstring" where
  "build_spec [] = []"
| "build_spec (e # es) =
     (if KLVBuildEntry.key e = [] \<or> KLVBuildEntry.value e = [] then build_spec es
      else padStart 3 0x30 (KLVBuildEntry.key e) @
           padStart 2 0x30 (toString (length (KLVBuildEntry.value e))) @
           KLVBuildEntry.value e @ build_spec es)"

text \<open>
  One line of the table: key, field name, length, value and offset, each in double quotes,
  joined by commas.
\<close>

definition csv_line :: "KLVEntry \<Rightarrow> jsstring" where
  "csv_line r =
     join [0x2C]
       (map (\<lambda>field. [0x22] @ field @ [0x22])
          [KLVEntry.key r, template (KLVEntry.name r), toString (len r), KLVEntry.value r,
           toString (pos r)])"

section \<open>Auxiliary notions\<close>

text \<open>
  \<open>scanned clean p new errs\<close>: started at position \<open>p\<close> of the buffer, the loop pushes the
  entries \<open>new\<close>, each of them a well-formed field that starts where the one before it ends,
  and then stops with the errors \<open>errs\<close>: none at the end of the buffer, or the one error of
  the field at which it stops.
\<close>

fun scanned :: "jsstring \<Rightarrow> nat \<Rightarrow> KLVEntry list \<Rightarrow> jsstring list \<Rightarrow> bool" where
  "scanned clean p [] errs \<longleftrightarrow>
     (length clean \<le> p \<and> errs = []) \<or>
     (p < length clean \<and> length clean < p + 5 \<and>
        errs = [js ''Incomplete entry at position '' @ toString p]) \<or>
     (p + 5 \<le> length clean \<and>
        \<not> (test_d3 (take 3 (drop p clean)) \<and> test_d2 (take 2 (drop (p + 3) clean))) \<and>
        errs = [js ''Invalid format at position '' @ toString p]) \<or>
     (p + 5 \<le> length clean \<and>
        test_d3 (take 3 (drop p clean)) \<and> test_d2 (take 2 (drop (p + 3) clean)) \<and>
        length clean < p + 5 + parseInt (take 2 (drop (p + 3) clean)) \<and>
        errs = [js ''Incomplete value at position '' @ toString (p + 5)])"
| "scanned clean p (e # rest) errs \<longleftrightarrow>
     p + 5 + len e \<le> length clean \<and> pos e = p \<and>
     take 3 (drop p clean) = KLVEntry.key e \<and> test_d3 (KLVEntry.key e) \<and>
     test_d2 (take 2 (drop (p + 3) clean)) \<and>
     parseInt (take 2 (drop (p + 3) clean)) = len e \<and>
     take (len e) (drop (p + 5) clean) = KLVEntry.value e \<and>
     KLVEntry.name e = lookupFieldName (KLVEntry.key e) \<and>
     scanned clean (p + 5 + len e) rest errs"

text \<open>The entry that \<open>makeEntry\<close> returns; it always returns one (\<open>makeEntry_returns\<close>).\<close>

definition theEntry :: "jsstring \<Rightarrow> nat \<Rightarrow> jsstring \<Rightarrow> nat \<Rightarrow> KLVEntry" where
  "theEntry k n v p = projr (makeEntry k n v p)"

text \<open>The entries that parsing the built buffer yields, from position \<open>p\<close> on.\<close>

fun built_entries :: "nat \<Rightarrow> KLVBuildEntry list \<Rightarrow> KLVEntry list" where
  "built_entries p [] = []"
| "built_entries p (e # es) =
     theEntry (padStart 3 0x30 (KLVBuildEntry.key e)) (length (KLVBuildEntry.value e))
       (KLVBuildEntry.value e) p
     # built_entries (p + 5 + length (KLVBuildEntry.value e)) es"

section \<open>String literals\<close>

lemma unat_of_char: "unat (of_char c :: jschar) = of_char c"
proof -
  have "(of_char c :: nat) < 256" by (rule nat_of_char_less_256)
  then have "(of_char c :: nat) < 65536" by linarith
  then have "(of_char c :: nat) mod 65536 = of_char c" by (rule mod_less)
  moreover have "(of_char c :: jschar) = of_nat (of_char c)" by (simp only: of_nat_of_char)
  ultimately show ?thesis by (simp add: unat_of_nat)
qed

lemma of_char_word_eq_iff: "(of_char a :: jschar) = of_char b \<longleftrightarrow> a = b"
proof
  assume "(of_char a :: jschar) = of_char b"
  then have "unat (of_char a :: jschar) = unat (of_char b :: jschar)" by simp
  then have "(of_char a :: nat) = of_char b" by (simp only: unat_of_char)
  then show "a = b" by simp
qed simp

lemma js_eq_iff: "js a = js b \<longleftrightarrow> a = b"
proof -
  have "inj (of_char :: char \<Rightarrow> jschar)"
    by (rule injI) (simp only: of_char_word_eq_iff)
  then show ?thesis
    unfolding js_def by (rule inj_map_eq_map)
qed

lemma js_Nil_iff: "js a = [] \<longleftrightarrow> a = []"
  by (simp add: js_def)

lemma length_js: "length (js a) = length a"
  by (simp add: js_def)

section \<open>Digits, decimal numerals and padding\<close>

lemma unat_digit: "d < 10 \<Longrightarrow> unat (of_nat (48 + d) :: jschar) = 48 + d"
  by (simp add: unat_of_nat del: of_nat_add)

lemma unat_digit': "d < 10 \<Longrightarrow> unat (48 + of_nat d :: jschar) = 48 + d"
  using unat_digit [of d] by simp

lemma isDigit_unat: "isDigit c \<longleftrightarrow> 48 \<le> unat c \<and> unat c \<le> 57"
  by (simp add: isDigit_def word_le_nat_alt)

lemma isDigit_of_nat: "d < 10 \<Longrightarrow> isDigit (of_nat (48 + d))"
  by (simp add: isDigit_unat unat_digit del: of_nat_add)

lemma isDigit_of_nat': "d < 10 \<Longrightarrow> isDigit (48 + of_nat d)"
  using isDigit_of_nat [of d] by simp

lemma digit_roundtrip: "isDigit c \<Longrightarrow> of_nat (48 + (unat c - 48)) = c"
  by (simp add: isDigit_unat)

lemma digit_roundtrip': "isDigit c \<Longrightarrow> 48 + of_nat (unat c - 48) = c"
  using digit_roundtrip [of c] by simp

lemma isDigit_not_whitespace: "isDigit c \<Longrightarrow> \<not> isWhitespace c"
  by (auto simp: isDigit_unat isWhitespace_def word_le_nat_alt)

lemma toString_small: "n < 10 \<Longrightarrow> toString n = [of_nat (48 + n)]"
  by (simp add: toString.simps)

lemma toString_two: "10 \<le> n \<Longrightarrow> n < 100 \<Longrightarrow> toString n = [of_nat (48 + n div 10), of_nat (48 + n mod 10)]"
  by (subst toString.simps) (simp add: toString_small)

lemma toString_digits: "list_all isDigit (toString n)"
  by (induction n rule: toString.induct) (subst toString.simps, simp add: isDigit_of_nat')

lemma toString_not_Nil: "toString n \<noteq> []"
  by (subst toString.simps) simp

lemma pad2_toString:
  "n < 100 \<Longrightarrow> padStart 2 0x30 (toString n) = [of_nat (48 + n div 10), of_nat (48 + n mod 10)]"
  by (cases "n < 10") (simp_all add: padStart_def toString_small toString_two)

lemma parseInt_two: "isDigit a \<Longrightarrow> isDigit b \<Longrightarrow> parseInt [a, b] = 10 * (unat a - 48) + (unat b - 48)"
  by (simp add: parseInt_def)

lemma parseInt_pad2: "n < 100 \<Longrightarrow> parseInt (padStart 2 0x30 (toString n)) = n"
  by (simp add: pad2_toString parseInt_two isDigit_of_nat' unat_digit')

lemma test_d2_pad2: "n < 100 \<Longrightarrow> test_d2 (padStart 2 0x30 (toString n))"
  by (simp add: pad2_toString test_d2_def isDigit_of_nat')

lemma test_d2_cases: "test_d2 s \<longleftrightarrow> (\<exists>a b. s = [a, b] \<and> isDigit a \<and> isDigit b)"
proof (cases s)
  case Nil
  then show ?thesis by (simp add: test_d2_def)
next
  case (Cons a t)
  show ?thesis
  proof (cases t)
    case Nil
    with Cons show ?thesis by (simp add: test_d2_def)
  next
    case (Cons b u)
    with \<open>s = a # t\<close> show ?thesis by (cases u) (auto simp: test_d2_def)
  qed
qed

lemma parseInt_test_d2:
  assumes "test_d2 s"
  shows "parseInt s < 100" and "padStart 2 0x30 (toString (parseInt s)) = s"
proof -
  from assms obtain a b where s: "s = [a, b]" and a: "isDigit a" and b: "isDigit b"
    by (auto simp: test_d2_cases)
  define x where "x = unat a - 48"
  define y where "y = unat b - 48"
  have x: "x < 10" and y: "y < 10" using a b by (auto simp: x_def y_def isDigit_unat)
  have p: "parseInt s = 10 * x + y" by (simp add: s parseInt_two a b x_def y_def)
  show "parseInt s < 100" using x y by (simp add: p)
  have dm: "(10 * x + y) div 10 = x" "(10 * x + y) mod 10 = y" using x y by simp_all
  have ab: "of_nat (48 + x) = a" "of_nat (48 + y) = b"
    using a b by (simp_all add: x_def y_def digit_roundtrip del: of_nat_add)
  have "10 * x + y < 100" using x y by simp
  then have "padStart 2 0x30 (toString (10 * x + y)) = [of_nat (48 + x), of_nat (48 + y)]"
    by (simp only: pad2_toString dm)
  then have "padStart 2 0x30 (toString (parseInt s)) = [a, b]"
    by (simp only: p ab)
  then show "padStart 2 0x30 (toString (parseInt s)) = s"
    by (simp only: s)
qed

section \<open>Builder\<close>

lemma join_empty_sep: "join [] xs = concat xs"
  by (induction xs rule: induct_list012) simp_all

lemma build_eq_build_spec: "build es = build_spec es"
  by (induction es) (simp_all add: build_def join_empty_sep)

text \<open>
  Claim C7. \<open>build\<close> drops every entry whose key or value is empty and emits, for each other
  entry in input order and with nothing in between, the key left-padded to three characters
  with \<open>0\<close>, the length of the value in decimal left-padded to two characters with \<open>0\<close>, and
  the value; nothing is emitted when no entry is left. On the keys \<open>002\<close>, \<open>026\<close> with the
  values \<open>AB48DE\<close>, \<open>4577\<close> it returns \<open>00206AB48DE026044577\<close>.
\<close>

theorem build_as_specified:
  "build es = build_spec es \<and>
   build [\<lparr>KLVBuildEntry.key = js ''002'', value = js ''AB48DE''\<rparr>,
          \<lparr>KLVBuildEntry.key = js ''026'', value = js ''4577''\<rparr>] = js ''00206AB48DE026044577''"
  by (simp add: build_eq_build_spec padStart_def js_def toString_small)

section \<open>Tabular export\<close>

lemma export_csv_lines:
  "export_csv rs = js ''Key,Name,Length,Value,Position'' @ [0x0A] @ join [0x0A] (map csv_line rs)"
  by (simp add: export_csv_def csv_line_def [abs_def])

text \<open>
  Claim C8, amended. The tabular export is the header \<open>Key,Name,Length,Value,Position\<close>, a
  newline, and the lines of the entries in input order joined by newlines, each line being the
  five fields in double quotes joined by commas. For a non-empty list this is the header and
  the entry lines joined by newlines, with no newline after the last line; for the empty list it
  is the header followed by one newline.
\<close>

theorem export_csv_table:
  "export_csv rs = js ''Key,Name,Length,Value,Position'' @ [0x0A] @ join [0x0A] (map csv_line rs) \<and>
   (rs \<noteq> [] \<longrightarrow>
      export_csv rs = join [0x0A] (js ''Key,Name,Length,Value,Position'' # map csv_line rs)) \<and>
   export_csv [] = js ''Key,Name,Length,Value,Position'' @ [0x0A]"
  by (cases rs) (simp_all add: export_csv_lines)

text \<open>
  The claim as stated makes the output the header and the entry lines joined by newlines, which
  for the empty list is the header alone; \<open>export\<close> returns the header and a newline.
\<close>

theorem export_csv_empty_counterexample:
  "export_csv [] \<noteq> join [0x0A] (js ''Key,Name,Length,Value,Position'' # map csv_line [])"
  by (simp add: export_csv_def)

theorem export_csv_table_witness:
  "[\<lparr>KLVEntry.key = js ''002'', len = 6, KLVEntry.value = js ''AB48DE'', pos = 0,
      KLVEntry.name = Val (js ''Tracking Number''), KLVEntry.formattedValue = None,
      KLVEntry.currencyInfo = None, KLVEntry.mccInfo = None\<rparr>] \<noteq> [] \<and>
   export_csv
     [\<lparr>KLVEntry.key = js ''002'', len = 6, KLVEntry.value = js ''AB48DE'', pos = 0,
        KLVEntry.name = Val (js ''Tracking Number''), KLVEntry.formattedValue = None,
        KLVEntry.currencyInfo = None, KLVEntry.mccInfo = None\<rparr>] =
   js ''Key,Name,Length,Value,Position'' @ [0x0A] @
   [0x22] @ js ''002'' @ [0x22, 0x2C, 0x22] @ js ''Tracking Number'' @ [0x22, 0x2C, 0x22] @
   js ''6'' @ [0x22, 0x2C, 0x22] @ js ''AB48DE'' @ [0x22, 0x2C, 0x22] @ js ''0'' @ [0x22]"
  using export_csv_table
    [of "[\<lparr>KLVEntry.key = js ''002'', len = 6, KLVEntry.value = js ''AB48DE'', pos = 0,
           KLVEntry.name = Val (js ''Tracking Number''), KLVEntry.formattedValue = None,
           KLVEntry.currencyInfo = None, KLVEntry.mccInfo = None\<rparr>]"]
  by (simp add: csv_line_def template_def toString_small js_def)

section \<open>Field names\<close>

lemma definitions_names_nonempty: "list_all (\<lambda>(k, n). n \<noteq> []) definitions"
  by (simp add: definitions_def js_Nil_iff)

lemma ObjectPrototype_not_d3: "test_d3 k \<Longrightarrow> k \<notin> set ObjectPrototype"
  by (auto simp: ObjectPrototype_def test_d3_def length_js)

lemma lookupFieldName_present:
  assumes "map_of definitions k = Some n"
  shows "lookupFieldName k = Val n"
proof -
  from assms have "(k, n) \<in> set definitions" by (rule map_of_SomeD)
  with definitions_names_nonempty have "n \<noteq> []" by (auto simp: list_all_iff)
  with assms show ?thesis by (simp add: lookupFieldName_def getProp_def truthy_def)
qed

lemma lookupFieldName_absent:
  "map_of definitions k = None \<Longrightarrow> k \<notin> set ObjectPrototype \<Longrightarrow>
   lookupFieldName k = Val (js ''Unknown'')"
  by (simp add: lookupFieldName_def getProp_def truthy_def)

lemma map_of_definitions_999: "map_of definitions (js ''999'') = Some (js ''Generic Key'')"
  by (simp add: definitions_def js_eq_iff)

lemma map_of_definitions_123: "map_of definitions (js ''123'') = None"
  by (simp add: definitions_def js_eq_iff)

lemma lookupFieldName_d3:
  assumes "test_d3 k"
  shows "lookupFieldName k =
           Val (case map_of definitions k of Some n \<Rightarrow> n | None \<Rightarrow> js ''Unknown'')"
proof (cases "map_of definitions k")
  case None
  with ObjectPrototype_not_d3 [OF assms] show ?thesis by (simp add: lookupFieldName_absent)
next
  case (Some n)
  then show ?thesis by (simp add: lookupFieldName_present)
qed

section \<open>Currency decorator\<close>

lemma formatCurrency_other_key: "k \<noteq> js ''049'' \<Longrightarrow> formatCurrency v k = Inr None"
  by (simp add: formatCurrency_def)

lemma formatCurrency_found:
  "map_of currencyMapping (padStart 3 0x30 v) = Some c \<Longrightarrow>
   formatCurrency v (js ''049'') =
     Inr (Some \<lparr>CurrencyFormat.formattedValue =
             Currency.flag c @ js '' '' @ Currency.code c @ js '' - '' @ Currency.name c,
           CurrencyFormat.currencyInfo =
             Some \<lparr>CurrencyInfo.code = Val (Currency.code c),
                   CurrencyInfo.name = Val (Currency.name c),
                   CurrencyInfo.flag = Val (Currency.flag c)\<rparr>\<rparr>)"
  by (simp add: formatCurrency_def getProp_def currency_flag_def currency_code_def
      currency_name_def template_def)

text \<open>The code \<open>840\<close> under key \<open>049\<close> is the US dollar.\<close>

lemma formatCurrency_840:
  "formatCurrency (js ''840'') (js ''049'') =
     Inr (Some \<lparr>CurrencyFormat.formattedValue =
             [0xD83C, 0xDDFA, 0xD83C, 0xDDF8] @ js '' USD - US Dollar'',
           CurrencyFormat.currencyInfo =
             Some \<lparr>CurrencyInfo.code = Val (js ''USD''),
                   CurrencyInfo.name = Val (js ''US Dollar''),
                   CurrencyInfo.flag = Val [0xD83C, 0xDDFA, 0xD83C, 0xDDF8]\<rparr>\<rparr>)"
proof -
  have p: "padStart 3 0x30 (js ''840'') = js ''840''"
    by (simp add: padStart_def length_js)
  have "map_of currencyMapping (js ''840'') =
          Some \<lparr>Currency.name = js ''US Dollar'', Currency.code = js ''USD'',
                Currency.flag = [0xD83C, 0xDDFA, 0xD83C, 0xDDF8]\<rparr>"
    by (simp add: currencyMapping_def js_eq_iff)
  then have "map_of currencyMapping (padStart 3 0x30 (js ''840'')) =
          Some \<lparr>Currency.name = js ''US Dollar'', Currency.code = js ''USD'',
                Currency.flag = [0xD83C, 0xDDFA, 0xD83C, 0xDDF8]\<rparr>"
    by (simp only: p)
  from formatCurrency_found [OF this] show ?thesis
    by (simp add: js_def)
qed

lemma formatCurrency_unknown:
  "map_of currencyMapping (padStart 3 0x30 v) = None \<Longrightarrow>
   padStart 3 0x30 v \<notin> set ObjectPrototype \<Longrightarrow>
   formatCurrency v (js ''049'') =
     Inr (Some \<lparr>CurrencyFormat.formattedValue = v @ js '' (Unknown Currency Code)'',
           CurrencyFormat.currencyInfo = None\<rparr>)"
  by (simp add: formatCurrency_def getProp_def)

lemma formatCurrency_inherited:
  "map_of currencyMapping (padStart 3 0x30 v) = None \<Longrightarrow>
   padStart 3 0x30 v \<in> set ObjectPrototype \<Longrightarrow>
   formatCurrency v (js ''049'') =
     Inr (Some \<lparr>CurrencyFormat.formattedValue =
             js ''undefined undefined - '' @ template (memberName (padStart 3 0x30 v)),
           CurrencyFormat.currencyInfo =
             Some \<lparr>CurrencyInfo.code = Undefined,
                   CurrencyInfo.name = memberName (padStart 3 0x30 v),
                   CurrencyInfo.flag = Undefined\<rparr>\<rparr>)"
  by (simp add: formatCurrency_def getProp_def Let_def currency_flag_def currency_code_def
      currency_name_def template_def js_def)

text \<open>
  Claim C5 at the value \<open>toString\<close>. The padded code is not in the Currency Table, yet
  \<open>currencyMapping['toString']\<close> is the function every object inherits, which is truthy: the
  decorator takes the branch for a known currency and reads \<open>flag\<close>, \<open>code\<close> and \<open>name\<close> off
  that function.
\<close>

theorem formatCurrency_inherited_member:
  "map_of currencyMapping (padStart 3 0x30 (js ''toString'')) = None \<and>
   formatCurrency (js ''toString'') (js ''049'') =
     Inr (Some \<lparr>CurrencyFormat.formattedValue = js ''undefined undefined - toString'',
           CurrencyFormat.currencyInfo =
             Some \<lparr>CurrencyInfo.code = Undefined, CurrencyInfo.name = Val (js ''toString''),
                   CurrencyInfo.flag = Undefined\<rparr>\<rparr>)"
proof -
  have p: "padStart 3 0x30 (js ''toString'') = js ''toString''"
    by (simp add: padStart_def length_js)
  have m: "map_of currencyMapping (js ''toString'') = None"
    by (simp add: currencyMapping_def js_eq_iff)
  have o: "js ''toString'' \<in> set ObjectPrototype"
    by (simp add: ObjectPrototype_def js_eq_iff)
  have n: "memberName (js ''toString'') = Val (js ''toString'')"
    by (simp add: memberName_def js_eq_iff)
  have a: "js ''undefined undefined - '' @ js ''toString'' = js ''undefined undefined - toString''"
    by (simp add: js_def)
  have "formatCurrency (js ''toString'') (js ''049'') =
     Inr (Some \<lparr>CurrencyFormat.formattedValue = js ''undefined undefined - '' @ js ''toString'',
           CurrencyFormat.currencyInfo =
             Some \<lparr>CurrencyInfo.code = Undefined, CurrencyInfo.name = Val (js ''toString''),
                   CurrencyInfo.flag = Undefined\<rparr>\<rparr>)"
    using formatCurrency_inherited [of "js ''toString''"] m o
    by (simp add: p n template_def)
  with m show ?thesis by (simp only: p a simp_thms)
qed

text \<open>
  \<open>formatCurrency\<close> never throws: it reads \<open>flag\<close>, \<open>code\<close> and \<open>name\<close> only behind its test
  \<open>if (currency)\<close>.
\<close>

lemma currency_reads_defined:
  "c \<noteq> Undefined \<Longrightarrow>
   (\<exists>fl. currency_flag c = Inr fl) \<and> (\<exists>cd. currency_code c = Inr cd) \<and>
   (\<exists>nm. currency_name c = Inr nm)"
  by (cases c) (simp_all add: currency_flag_def currency_code_def currency_name_def)

lemma formatCurrency_returns: "\<exists>f. formatCurrency v k = Inr f"
proof (cases "k \<noteq> js ''049'' \<or> getProp currencyMapping (padStart 3 0x30 v) = Undefined")
  case True
  then show ?thesis by (auto simp: formatCurrency_def)
next
  case False
  then have k: "k = js ''049''" and c: "getProp currencyMapping (padStart 3 0x30 v) \<noteq> Undefined"
    by simp_all
  from currency_reads_defined [OF c] obtain fl cd nm where
    "currency_flag (getProp currencyMapping (padStart 3 0x30 v)) = Inr fl"
    "currency_code (getProp currencyMapping (padStart 3 0x30 v)) = Inr cd"
    "currency_name (getProp currencyMapping (padStart 3 0x30 v)) = Inr nm"
    by blast
  with k c show ?thesis by (simp add: formatCurrency_def)
qed

section \<open>One iteration of the parser\<close>

lemma substring_in_range:
  "a \<le> b \<Longrightarrow> b \<le> length s \<Longrightarrow> substring s a b = take (b - a) (drop a s)"
  by (simp add: substring_def Let_def min_def max_def)

text \<open>\<open>makeEntry\<close> never throws, because \<open>formatCurrency\<close> does not.\<close>

lemma makeEntry_returns: "makeEntry k n v p = Inr (theEntry k n v p)"
proof -
  obtain f where "formatCurrency v k = Inr f" using formatCurrency_returns by blast
  then show ?thesis by (simp add: theEntry_def makeEntry_def Let_def)
qed

lemma theEntry_fields [simp]:
  "KLVEntry.key (theEntry k n v p) = k"
  "len (theEntry k n v p) = n"
  "KLVEntry.value (theEntry k n v p) = v"
  "pos (theEntry k n v p) = p"
  "KLVEntry.name (theEntry k n v p) = lookupFieldName k"
proof -
  obtain f where "formatCurrency v k = Inr f" using formatCurrency_returns by blast
  then show
    "KLVEntry.key (theEntry k n v p) = k"
    "len (theEntry k n v p) = n"
    "KLVEntry.value (theEntry k n v p) = v"
    "pos (theEntry k n v p) = p"
    "KLVEntry.name (theEntry k n v p) = lookupFieldName k"
    by (simp_all add: theEntry_def makeEntry_def Let_def split: option.splits)
qed

lemma parse_loop_done:
  "length clean \<le> p \<Longrightarrow> parse_loop clean p rs es = Inr \<lparr>results = rs, KLVParseResult.errors = es\<rparr>"
  by (subst parse_loop.simps) simp

lemma parse_loop_incomplete_entry:
  "p < length clean \<Longrightarrow> length clean < p + 5 \<Longrightarrow>
   parse_loop clean p rs es =
     Inr \<lparr>results = rs,
      KLVParseResult.errors = es @ [js ''Incomplete entry at position '' @ toString p]\<rparr>"
  by (subst parse_loop.simps) simp

lemma parse_loop_invalid_format:
  "p + 5 \<le> length clean \<Longrightarrow>
   \<not> (test_d3 (take 3 (drop p clean)) \<and> test_d2 (take 2 (drop (p + 3) clean))) \<Longrightarrow>
   parse_loop clean p rs es =
     Inr \<lparr>results = rs,
      KLVParseResult.errors = es @ [js ''Invalid format at position '' @ toString p]\<rparr>"
  by (subst parse_loop.simps) (auto simp: substring_in_range Let_def)

lemma parse_loop_incomplete_value:
  "p + 5 \<le> length clean \<Longrightarrow>
   test_d3 (take 3 (drop p clean)) \<Longrightarrow> test_d2 (take 2 (drop (p + 3) clean)) \<Longrightarrow>
   length clean < p + 5 + parseInt (take 2 (drop (p + 3) clean)) \<Longrightarrow>
   parse_loop clean p rs es =
     Inr \<lparr>results = rs,
      KLVParseResult.errors = es @ [js ''Incomplete value at position '' @ toString (p + 5)]\<rparr>"
  by (subst parse_loop.simps) (simp add: substring_in_range Let_def)

lemma parse_loop_entry:
  "p + 5 \<le> length clean \<Longrightarrow>
   test_d3 (take 3 (drop p clean)) \<Longrightarrow> test_d2 (take 2 (drop (p + 3) clean)) \<Longrightarrow>
   p + 5 + parseInt (take 2 (drop (p + 3) clean)) \<le> length clean \<Longrightarrow>
   parse_loop clean p rs es =
     parse_loop clean (p + 5 + parseInt (take 2 (drop (p + 3) clean)))
       (rs @ [theEntry (take 3 (drop p clean)) (parseInt (take 2 (drop (p + 3) clean)))
                (take (parseInt (take 2 (drop (p + 3) clean))) (drop (p + 5) clean)) p])
       es"
  by (subst parse_loop.simps) (simp add: substring_in_range Let_def makeEntry_returns)

lemma parse_loop_scanned:
  "\<exists>new errs. parse_loop clean p rs es =
                 Inr \<lparr>results = rs @ new, KLVParseResult.errors = es @ errs\<rparr> \<and>
               scanned clean p new errs"
proof (induction "length clean - p" arbitrary: p rs es rule: less_induct)
  case less
  let ?k = "take 3 (drop p clean)"
  let ?l = "take 2 (drop (p + 3) clean)"
  let ?n = "parseInt ?l"
  consider (finished) "length clean \<le> p"
    | (short) "p < length clean" "length clean < p + 5"
    | (invalid) "p + 5 \<le> length clean" "\<not> (test_d3 ?k \<and> test_d2 ?l)"
    | (cut) "p + 5 \<le> length clean" "test_d3 ?k" "test_d2 ?l" "length clean < p + 5 + ?n"
    | (entry) "p + 5 \<le> length clean" "test_d3 ?k" "test_d2 ?l" "p + 5 + ?n \<le> length clean"
    by linarith
  then show ?case
  proof cases
    case finished
    then have "parse_loop clean p rs es = Inr \<lparr>results = rs @ [], KLVParseResult.errors = es @ []\<rparr>"
      by (simp add: parse_loop_done)
    moreover from finished have "scanned clean p [] []" by simp
    ultimately show ?thesis by blast
  next
    case short
    then have "scanned clean p [] [js ''Incomplete entry at position '' @ toString p]" by simp
    moreover from short have "parse_loop clean p rs es =
      Inr \<lparr>results = rs @ [], KLVParseResult.errors = es @ [js ''Incomplete entry at position '' @ toString p]\<rparr>"
      by (simp add: parse_loop_incomplete_entry)
    ultimately show ?thesis by blast
  next
    case invalid
    then have "scanned clean p [] [js ''Invalid format at position '' @ toString p]" by simp
    moreover from invalid have "parse_loop clean p rs es =
      Inr \<lparr>results = rs @ [], KLVParseResult.errors = es @ [js ''Invalid format at position '' @ toString p]\<rparr>"
      by (simp add: parse_loop_invalid_format)
    ultimately show ?thesis by blast
  next
    case cut
    then have "scanned clean p [] [js ''Incomplete value at position '' @ toString (p + 5)]" by simp
    moreover from cut have "parse_loop clean p rs es =
      Inr \<lparr>results = rs @ [], KLVParseResult.errors = es @ [js ''Incomplete value at position '' @ toString (p + 5)]\<rparr>"
      by (simp add: parse_loop_incomplete_value)
    ultimately show ?thesis by blast
  next
    case entry
    let ?e = "theEntry ?k ?n (take ?n (drop (p + 5) clean)) p"
    from entry have step: "parse_loop clean p rs es = parse_loop clean (p + 5 + ?n) (rs @ [?e]) es"
      by (rule parse_loop_entry)
    from entry have "length clean - (p + 5 + ?n) < length clean - p" by linarith
    from less [OF this, of "rs @ [?e]" es]
    obtain new errs where
      rec: "parse_loop clean (p + 5 + ?n) (rs @ [?e]) es =
              Inr \<lparr>results = (rs @ [?e]) @ new, KLVParseResult.errors = es @ errs\<rparr>"
      and sc: "scanned clean (p + 5 + ?n) new errs"
      by blast
    from entry sc have "scanned clean p (?e # new) errs" by simp
    moreover from step rec have "parse_loop clean p rs es =
      Inr \<lparr>results = rs @ (?e # new), KLVParseResult.errors = es @ errs\<rparr>" by simp
    ultimately show ?thesis by blast
  qed
qed

lemma parse_scanned:
  "\<exists>r. parse s = Inr r \<and>
        scanned (stripWhitespace s) 0 (results r) (KLVParseResult.errors r)"
proof -
  from parse_loop_scanned [of "stripWhitespace s" 0 "[]" "[]"]
  obtain new errs where
    "parse_loop (stripWhitespace s) 0 [] [] =
       Inr \<lparr>results = [] @ new, KLVParseResult.errors = [] @ errs\<rparr>"
    and "scanned (stripWhitespace s) 0 new errs"
    by blast
  then show ?thesis by (simp add: parse_def)
qed

lemma validate_returns:
  "parse s = Inr r \<Longrightarrow>
   validate s =
     Inr \<lparr>isValid = (KLVParseResult.errors r = []), entriesCount = length (results r),
          KLVValidationResult.errors = KLVParseResult.errors r,
          totalLength = length (stripWhitespace s)\<rparr>"
  by (simp add: validate_def)

section \<open>What a scan implies\<close>

lemma scanned_errors_le_1: "scanned clean p new errs \<Longrightarrow> length errs \<le> 1"
  by (induction new arbitrary: p) auto

lemma scanned_value_length:
  "scanned clean p new errs \<Longrightarrow> \<forall>e \<in> set new. length (KLVEntry.value e) = len e"
proof (induction new arbitrary: p)
  case Nil
  then show ?case by simp
next
  case (Cons e rest)
  from Cons.prems have v: "take (len e) (drop (p + 5) clean) = KLVEntry.value e"
    and b: "p + 5 + len e \<le> length clean"
    and r: "scanned clean (p + 5 + len e) rest errs"
    by simp_all
  from b have "length (take (len e) (drop (p + 5) clean)) = len e" by simp
  with v have "length (KLVEntry.value e) = len e" by simp
  with Cons.IH [OF r] show ?case by simp
qed

lemma scanned_offsets:
  "scanned clean p new errs \<Longrightarrow> Suc i < length new \<Longrightarrow>
   pos (new ! Suc i) = pos (new ! i) + 5 + len (new ! i)"
proof (induction new arbitrary: p i)
  case Nil
  then show ?case by simp
next
  case (Cons e rest)
  show ?case
  proof (cases i)
    case 0
    with Cons.prems show ?thesis by (cases rest) auto
  next
    case (Suc j)
    with Cons.prems Cons.IH [of "p + 5 + len e" j] show ?thesis by simp
  qed
qed

lemma scanned_first: "scanned clean p (e # rest) errs \<Longrightarrow> pos e = p"
  by simp

lemma scanned_frontier:
  "scanned clean p new errs \<Longrightarrow>
   (\<forall>e \<in> set new. p \<le> pos e \<and> pos e + 5 + len e \<le> p + (\<Sum>e\<leftarrow>new. 5 + len e)) \<and>
   scanned clean (p + (\<Sum>e\<leftarrow>new. 5 + len e)) [] errs"
proof (induction new arbitrary: p)
  case Nil
  then show ?case by simp
next
  case (Cons e rest)
  from Cons.prems have e: "pos e = p" and r: "scanned clean (p + 5 + len e) rest errs"
    by simp_all
  from Cons.IH [OF r] e show ?case by (auto simp: add.assoc)
qed

lemma scanned_within:
  "scanned clean p new errs \<Longrightarrow> p \<le> length clean \<Longrightarrow>
   p + (\<Sum>e\<leftarrow>new. 5 + len e) \<le> length clean"
proof (induction new arbitrary: p)
  case Nil
  then show ?case by simp
next
  case (Cons e rest)
  from Cons.prems have "scanned clean (p + 5 + len e) rest errs" "p + 5 + len e \<le> length clean"
    by simp_all
  from Cons.IH [OF this] show ?case by (simp add: add.assoc)
qed

lemma scanned_total:
  assumes "scanned clean 0 new []"
  shows "(\<Sum>e\<leftarrow>new. 5 + len e) = length clean"
proof -
  from scanned_frontier [OF assms] have "scanned clean (\<Sum>e\<leftarrow>new. 5 + len e) [] []" by simp
  then have "length clean \<le> (\<Sum>e\<leftarrow>new. 5 + len e)" by simp
  moreover from scanned_within [OF assms] have "(\<Sum>e\<leftarrow>new. 5 + len e) \<le> length clean" by simp
  ultimately show ?thesis by simp
qed

lemma take_drop_chain: "take n (drop p xs) @ drop (p + n) xs = drop p xs"
proof -
  have "take n (drop p xs) @ drop n (drop p xs) = drop p xs" by (rule append_take_drop_id)
  then show ?thesis by (simp add: add.commute)
qed

lemma pad3_test_d3: "test_d3 k \<Longrightarrow> padStart 3 0x30 k = k"
  by (simp add: padStart_def test_d3_def)

lemma scanned_rebuild:
  "scanned clean p new [] \<Longrightarrow> \<forall>e \<in> set new. KLVEntry.value e \<noteq> [] \<Longrightarrow> p \<le> length clean \<Longrightarrow>
   build_spec (map (\<lambda>e. \<lparr>KLVBuildEntry.key = KLVEntry.key e, value = KLVEntry.value e\<rparr>) new)
     = drop p clean"
proof (induction new arbitrary: p)
  case Nil
  then show ?case by simp
next
  case (Cons e rest)
  let ?l = "take 2 (drop (p + 3) clean)"
  from Cons.prems have k: "take 3 (drop p clean) = KLVEntry.key e" and d3: "test_d3 (KLVEntry.key e)"
    and d2: "test_d2 ?l" and n: "parseInt ?l = len e"
    and v: "take (len e) (drop (p + 5) clean) = KLVEntry.value e"
    and r: "scanned clean (p + 5 + len e) rest []" and b: "p + 5 + len e \<le> length clean"
    and ne: "KLVEntry.value e \<noteq> []" and rne: "\<forall>e \<in> set rest. KLVEntry.value e \<noteq> []"
    by simp_all
  from d3 have kne: "KLVEntry.key e \<noteq> []" by (auto simp: test_d3_def)
  from b have "length (take (len e) (drop (p + 5) clean)) = len e" by simp
  with v have lv: "length (KLVEntry.value e) = len e" by simp
  from parseInt_test_d2(2) [OF d2] n have l: "padStart 2 0x30 (toString (len e)) = ?l" by simp
  from Cons.IH [OF r rne b]
  have ih: "build_spec (map (\<lambda>e. \<lparr>KLVBuildEntry.key = KLVEntry.key e, value = KLVEntry.value e\<rparr>) rest)
              = drop (p + 5 + len e) clean" .
  have c1: "take 3 (drop p clean) @ drop (p + 3) clean = drop p clean"
    by (rule take_drop_chain)
  have c2: "?l @ drop (p + 5) clean = drop (p + 3) clean"
    using take_drop_chain [of 2 "p + 3" clean] by (simp add: add.commute)
  have c3: "take (len e) (drop (p + 5) clean) @ drop (p + 5 + len e) clean = drop (p + 5) clean"
    by (rule take_drop_chain)
  have "take 3 (drop p clean) @ ?l @ take (len e) (drop (p + 5) clean) @ drop (p + 5 + len e) clean
        = drop p clean"
    by (simp only: c3 c2 c1)
  with kne ne ih lv l show ?case
    by (simp add: pad3_test_d3 [OF d3] k v)
qed

lemma scanned_nth_pos:
  "scanned clean p new errs \<Longrightarrow> i < length new \<Longrightarrow>
   pos (new ! i) = p + (\<Sum>e\<leftarrow>take i new. 5 + len e)"
proof (induction new arbitrary: p i)
  case Nil
  then show ?case by simp
next
  case (Cons e rest)
  show ?case
  proof (cases i)
    case 0
    with Cons.prems show ?thesis by simp
  next
    case (Suc j)
    from Cons.prems have r: "scanned clean (p + 5 + len e) rest errs" by simp
    from Suc Cons.prems have j: "j < length rest" by simp
    from Cons.IH [OF r j] Suc show ?thesis by (simp add: add.assoc)
  qed
qed

lemma scanned_nth_field:
  "scanned clean p new errs \<Longrightarrow> i < length new \<Longrightarrow>
   pos (new ! i) + 5 + len (new ! i) \<le> length clean \<and>
   take 3 (drop (pos (new ! i)) clean) = KLVEntry.key (new ! i) \<and>
   test_d3 (KLVEntry.key (new ! i)) \<and>
   test_d2 (take 2 (drop (pos (new ! i) + 3) clean)) \<and>
   parseInt (take 2 (drop (pos (new ! i) + 3) clean)) = len (new ! i) \<and>
   take (len (new ! i)) (drop (pos (new ! i) + 5) clean) = KLVEntry.value (new ! i) \<and>
   KLVEntry.name (new ! i) = lookupFieldName (KLVEntry.key (new ! i))"
proof (induction new arbitrary: p i)
  case Nil
  then show ?case by simp
next
  case (Cons e rest)
  show ?case
  proof (cases i)
    case 0
    with Cons.prems show ?thesis by simp
  next
    case (Suc j)
    from Cons.prems have r: "scanned clean (p + 5 + len e) rest errs" by simp
    from Suc Cons.prems have j: "j < length rest" by simp
    from Cons.IH [OF r j] Suc show ?thesis by simp
  qed
qed

section \<open>Parsing what the builder wrote\<close>

lemma pad3_length: "length k \<le> 3 \<Longrightarrow> length (padStart 3 c k) = 3"
  by (simp add: padStart_def)

lemma pad3_digits: "list_all isDigit k \<Longrightarrow> list_all isDigit (padStart 3 0x30 k)"
  by (auto simp: padStart_def list_all_iff isDigit_def)

lemma pad2_length: "n < 100 \<Longrightarrow> length (padStart 2 0x30 (toString n)) = 2"
  by (simp add: pad2_toString)

lemma field_split:
  assumes "length k = 3" and "length l = 2"
  shows "take 3 (drop (length pre) (pre @ k @ l @ v @ rest)) = k"
    and "take 2 (drop (length pre + 3) (pre @ k @ l @ v @ rest)) = l"
    and "take (length v) (drop (length pre + 5) (pre @ k @ l @ v @ rest)) = v"
  using assms by simp_all

lemma parse_loop_build:
  assumes "\<forall>e \<in> set es. KLVBuildEntry.key e \<noteq> [] \<and> length (KLVBuildEntry.key e) \<le> 3 \<and>
             list_all isDigit (KLVBuildEntry.key e) \<and> KLVBuildEntry.value e \<noteq> [] \<and>
             length (KLVBuildEntry.value e) < 100"
  shows "parse_loop (pre @ build_spec es) (length pre) rs errs =
           Inr \<lparr>results = rs @ built_entries (length pre) es, KLVParseResult.errors = errs\<rparr>"
  using assms
proof (induction es arbitrary: pre rs)
  case Nil
  show ?case by (simp add: parse_loop_done)
next
  case (Cons e es)
  let ?k = "padStart 3 0x30 (KLVBuildEntry.key e)"
  let ?v = "KLVBuildEntry.value e"
  let ?l = "padStart 2 0x30 (toString (length ?v))"
  let ?clean = "pre @ ?k @ ?l @ ?v @ build_spec es"
  let ?p = "length pre"
  from Cons.prems have kne: "KLVBuildEntry.key e \<noteq> []" and k3: "length (KLVBuildEntry.key e) \<le> 3"
    and kd: "list_all isDigit (KLVBuildEntry.key e)" and vne: "?v \<noteq> []" and vl: "length ?v < 100"
    and rest: "\<forall>e \<in> set es. KLVBuildEntry.key e \<noteq> [] \<and> length (KLVBuildEntry.key e) \<le> 3 \<and>
             list_all isDigit (KLVBuildEntry.key e) \<and> KLVBuildEntry.value e \<noteq> [] \<and>
             length (KLVBuildEntry.value e) < 100"
    by simp_all
  have lk: "length ?k = 3" using k3 by (rule pad3_length)
  have ll: "length ?l = 2" using vl by (rule pad2_length)
  have tk: "take 3 (drop ?p ?clean) = ?k"
    and tl: "take 2 (drop (?p + 3) ?clean) = ?l"
    and tv: "take (length ?v) (drop (?p + 5) ?clean) = ?v"
    by (rule field_split [OF lk ll])+
  have d3: "test_d3 ?k" using lk kd by (simp add: test_d3_def pad3_digits)
  have d2: "test_d2 ?l" using vl by (rule test_d2_pad2)
  have n: "parseInt ?l = length ?v" using vl by (rule parseInt_pad2)
  have b5: "?p + 5 \<le> length ?clean" using lk ll by simp
  have d3': "test_d3 (take 3 (drop ?p ?clean))" using d3 by (simp only: tk)
  have d2': "test_d2 (take 2 (drop (?p + 3) ?clean))" using d2 by (simp only: tl)
  have "?p + 5 + length ?v \<le> length ?clean" using lk ll by simp
  then have bn: "?p + 5 + parseInt (take 2 (drop (?p + 3) ?clean)) \<le> length ?clean"
    by (simp only: tl n)
  have "parse_loop ?clean ?p rs errs =
          parse_loop ?clean (?p + 5 + parseInt (take 2 (drop (?p + 3) ?clean)))
            (rs @ [theEntry (take 3 (drop ?p ?clean)) (parseInt (take 2 (drop (?p + 3) ?clean)))
                     (take (parseInt (take 2 (drop (?p + 3) ?clean))) (drop (?p + 5) ?clean)) ?p])
            errs"
    using b5 d3' d2' bn by (rule parse_loop_entry)
  then have "parse_loop ?clean ?p rs errs =
          parse_loop ?clean (?p + 5 + length ?v) (rs @ [theEntry ?k (length ?v) ?v ?p]) errs"
    by (simp only: tk tl n tv)
  also have "\<dots> = parse_loop ((pre @ ?k @ ?l @ ?v) @ build_spec es) (length (pre @ ?k @ ?l @ ?v))
                     (rs @ [theEntry ?k (length ?v) ?v ?p]) errs"
    using lk ll by (simp add: add.assoc)
  also have "\<dots> = Inr \<lparr>results = (rs @ [theEntry ?k (length ?v) ?v ?p]) @
                       built_entries (length (pre @ ?k @ ?l @ ?v)) es,
                     KLVParseResult.errors = errs\<rparr>"
    using rest by (rule Cons.IH)
  also have "\<dots> = Inr \<lparr>results = rs @ built_entries ?p (e # es), KLVParseResult.errors = errs\<rparr>"
    using lk ll by (simp add: add.assoc)
  finally show ?case using kne vne by simp
qed

lemma build_spec_no_whitespace:
  assumes "\<forall>e \<in> set es. list_all isDigit (KLVBuildEntry.key e) \<and>
             list_all (\<lambda>c. \<not> isWhitespace c) (KLVBuildEntry.value e)"
  shows "list_all (\<lambda>c. \<not> isWhitespace c) (build_spec es)"
  using assms
proof (induction es)
  case Nil
  show ?case by simp
next
  case (Cons e es)
  have z: "\<not> isWhitespace 0x30" by (simp add: isWhitespace_def)
  from Cons.prems have "list_all (\<lambda>c. \<not> isWhitespace c) (KLVBuildEntry.key e)"
    by (auto simp: list_all_iff isDigit_not_whitespace)
  with z have "list_all (\<lambda>c. \<not> isWhitespace c) (padStart 3 0x30 (KLVBuildEntry.key e))"
    by (auto simp: padStart_def list_all_iff)
  moreover have "list_all (\<lambda>c. \<not> isWhitespace c) (toString (length (KLVBuildEntry.value e)))"
    using toString_digits [of "length (KLVBuildEntry.value e)"]
    by (auto simp: list_all_iff isDigit_not_whitespace)
  with z have "list_all (\<lambda>c. \<not> isWhitespace c)
                 (padStart 2 0x30 (toString (length (KLVBuildEntry.value e))))"
    by (auto simp: padStart_def list_all_iff)
  moreover from Cons have "list_all (\<lambda>c. \<not> isWhitespace c) (build_spec es)" by simp
  moreover from Cons.prems have "list_all (\<lambda>c. \<not> isWhitespace c) (KLVBuildEntry.value e)" by simp
  ultimately show ?case by simp
qed

lemma stripWhitespace_id: "list_all (\<lambda>c. \<not> isWhitespace c) s \<Longrightarrow> stripWhitespace s = s"
  by (simp add: stripWhitespace_def list_all_iff)

lemma parse_build:
  assumes "\<forall>e \<in> set es. KLVBuildEntry.key e \<noteq> [] \<and> length (KLVBuildEntry.key e) \<le> 3 \<and>
             list_all isDigit (KLVBuildEntry.key e) \<and> KLVBuildEntry.value e \<noteq> [] \<and>
             length (KLVBuildEntry.value e) < 100 \<and>
             list_all (\<lambda>c. \<not> isWhitespace c) (KLVBuildEntry.value e)"
  shows "parse (build es) = Inr \<lparr>results = built_entries 0 es, KLVParseResult.errors = []\<rparr>"
proof -
  from assms have "list_all (\<lambda>c. \<not> isWhitespace c) (build_spec es)"
    by (intro build_spec_no_whitespace) simp
  then have "stripWhitespace (build es) = build_spec es"
    by (simp add: stripWhitespace_id build_eq_build_spec)
  moreover from assms have "parse_loop ([] @ build_spec es) (length ([] :: jsstring)) [] [] =
      Inr \<lparr>results = [] @ built_entries (length ([] :: jsstring)) es, KLVParseResult.errors = []\<rparr>"
    by (intro parse_loop_build) simp
  ultimately show ?thesis by (simp add: parse_def)
qed

lemma built_entries_fields:
  "map KLVEntry.key (built_entries p es) = map (\<lambda>e. padStart 3 0x30 (KLVBuildEntry.key e)) es"
  "map KLVEntry.value (built_entries p es) = map KLVBuildEntry.value es"
  "map len (built_entries p es) = map (\<lambda>e. length (KLVBuildEntry.value e)) es"
  "length (built_entries p es) = length es"
  by (induction es arbitrary: p) simp_all

lemma built_entries_hd: "es \<noteq> [] \<Longrightarrow> pos (hd (built_entries p es)) = p"
  by (cases es) simp_all

section \<open>Validator\<close>

text \<open>
  Claim C4. \<open>validate s\<close> is read off \<open>parse s\<close>: both return, and the result of \<open>validate\<close>
  is valid exactly when \<open>parse s\<close> returned no error, its entry count is the number of entries
  of \<open>parse s\<close>, its errors are those of \<open>parse s\<close>, and its total length is the length of \<open>s\<close>
  without its white space.
\<close>

theorem validate_from_parse:
  "\<exists>r v. parse s = Inr r \<and> validate s = Inr v \<and>
     isValid v = (KLVParseResult.errors r = []) \<and>
     entriesCount v = length (results r) \<and>
     KLVValidationResult.errors v = KLVParseResult.errors r \<and>
     totalLength v = length (filter (\<lambda>c. \<not> isWhitespace c) s)"
proof -
  from parse_scanned [of s] obtain r where r: "parse s = Inr r" by blast
  from validate_returns [OF r] r show ?thesis by (simp add: stripWhitespace_def)
qed

section \<open>Parser: field names\<close>

lemma digits_no_whitespace: "list_all isDigit k \<Longrightarrow> list_all (\<lambda>c. \<not> isWhitespace c) k"
  by (auto simp: list_all_iff isDigit_not_whitespace)

lemma parse_key_only:
  assumes "test_d3 k"
  shows "parse (k @ js ''00'') =
           Inr \<lparr>results = [theEntry k 0 [] 0], KLVParseResult.errors = []\<rparr>"
proof -
  let ?clean = "k @ js ''00''"
  from assms have lk: "length k = 3" and kd: "list_all isDigit k"
    by (simp_all add: test_d3_def)
  have z: "list_all isDigit (js ''00'')" by (simp add: js_def isDigit_def)
  from kd z have "list_all (\<lambda>c. \<not> isWhitespace c) ?clean"
    by (simp add: digits_no_whitespace)
  then have c: "stripWhitespace ?clean = ?clean" by (rule stripWhitespace_id)
  have tk: "take 3 (drop 0 ?clean) = k" using lk by simp
  have tl: "take 2 (drop (0 + 3) ?clean) = js ''00''" using lk by (simp add: length_js)
  have n: "parseInt (js ''00'') = 0" by (simp add: parseInt_def js_def isDigit_def)
  have d3: "test_d3 (take 3 (drop 0 ?clean))" using assms by (simp only: tk)
  have d2: "test_d2 (take 2 (drop (0 + 3) ?clean))"
    unfolding tl by (simp add: test_d2_def js_def isDigit_def)
  have b5: "0 + 5 \<le> length ?clean" using lk by (simp add: length_js)
  have bn: "0 + 5 + parseInt (take 2 (drop (0 + 3) ?clean)) \<le> length ?clean"
    unfolding tl n using lk by (simp add: length_js)
  have "parse_loop ?clean 0 [] [] =
          parse_loop ?clean (0 + 5 + parseInt (take 2 (drop (0 + 3) ?clean)))
            ([] @ [theEntry (take 3 (drop 0 ?clean)) (parseInt (take 2 (drop (0 + 3) ?clean)))
                     (take (parseInt (take 2 (drop (0 + 3) ?clean))) (drop (0 + 5) ?clean)) 0])
            []"
    using b5 d3 d2 bn by (rule parse_loop_entry)
  then have "parse_loop ?clean 0 [] [] = parse_loop ?clean 5 [theEntry k 0 [] 0] []"
    unfolding tl n tk by simp
  also have "\<dots> = Inr \<lparr>results = [theEntry k 0 [] 0], KLVParseResult.errors = []\<rparr>"
    using lk by (intro parse_loop_done) (simp add: length_js)
  finally show ?thesis by (simp add: parse_def c)
qed

text \<open>
  Claim C6. The field-name lookup is the expression \<open>definitions[key] || 'Unknown'\<close> of
  \<open>parse\<close>. Every key that \<open>parse\<close> looks up is a string of three decimal digits, and the
  name of the entry is what the lookup returns; every string of three decimal digits is looked
  up when it is parsed with an empty value. On each of them the lookup returns the directory's
  name when the key is in the Field Directory and \<open>Unknown\<close> when it is not; it never fails.
  The key \<open>999\<close> gives \<open>Generic Key\<close>, and \<open>123\<close> is not in the directory and gives \<open>Unknown\<close>.
\<close>

theorem parse_field_names:
  "(\<exists>r. parse s = Inr r \<and>
      (\<forall>e \<in> set (results r).
         test_d3 (KLVEntry.key e) \<and>
         KLVEntry.name e = lookupFieldName (KLVEntry.key e) \<and>
         KLVEntry.name e =
           Val (case map_of definitions (KLVEntry.key e) of
                  Some n \<Rightarrow> n | None \<Rightarrow> js ''Unknown''))) \<and>
   (test_d3 k \<longrightarrow>
      lookupFieldName k =
        Val (case map_of definitions k of Some n \<Rightarrow> n | None \<Rightarrow> js ''Unknown'') \<and>
      (\<exists>r. parse (k @ js ''00'') = Inr r \<and> map KLVEntry.key (results r) = [k] \<and>
           map KLVEntry.name (results r) = [lookupFieldName k])) \<and>
   lookupFieldName (js ''999'') = Val (js ''Generic Key'') \<and>
   map_of definitions (js ''123'') = None \<and>
   lookupFieldName (js ''123'') = Val (js ''Unknown'')"
proof -
  from parse_scanned [of s] obtain r where r: "parse s = Inr r"
    and sc: "scanned (stripWhitespace s) 0 (results r) (KLVParseResult.errors r)"
    by blast
  have "\<forall>e \<in> set (results r).
         test_d3 (KLVEntry.key e) \<and>
         KLVEntry.name e = lookupFieldName (KLVEntry.key e) \<and>
         KLVEntry.name e =
           Val (case map_of definitions (KLVEntry.key e) of
                  Some n \<Rightarrow> n | None \<Rightarrow> js ''Unknown'')"
  proof
    fix e assume "e \<in> set (results r)"
    then obtain i where i: "i < length (results r)" and e: "e = results r ! i"
      by (auto simp: in_set_conv_nth)
    from scanned_nth_field [OF sc i] e
    have d: "test_d3 (KLVEntry.key e)" and n: "KLVEntry.name e = lookupFieldName (KLVEntry.key e)"
      by simp_all
    from d n lookupFieldName_d3 [OF d] show
      "test_d3 (KLVEntry.key e) \<and>
       KLVEntry.name e = lookupFieldName (KLVEntry.key e) \<and>
       KLVEntry.name e =
         Val (case map_of definitions (KLVEntry.key e) of
                Some n \<Rightarrow> n | None \<Rightarrow> js ''Unknown'')"
      by simp
  qed
  with r have first: "\<exists>r. parse s = Inr r \<and>
      (\<forall>e \<in> set (results r).
         test_d3 (KLVEntry.key e) \<and>
         KLVEntry.name e = lookupFieldName (KLVEntry.key e) \<and>
         KLVEntry.name e =
           Val (case map_of definitions (KLVEntry.key e) of
                  Some n \<Rightarrow> n | None \<Rightarrow> js ''Unknown''))"
    by blast
  have second: "test_d3 k \<longrightarrow>
      lookupFieldName k =
        Val (case map_of definitions k of Some n \<Rightarrow> n | None \<Rightarrow> js ''Unknown'') \<and>
      (\<exists>r. parse (k @ js ''00'') = Inr r \<and> map KLVEntry.key (results r) = [k] \<and>
           map KLVEntry.name (results r) = [lookupFieldName k])"
    by (simp add: lookupFieldName_d3 parse_key_only)
  have d999: "test_d3 (js ''999'')" and d123: "test_d3 (js ''123'')"
    by (simp_all add: test_d3_def isDigit_def js_def)
  have "lookupFieldName (js ''999'') = Val (js ''Generic Key'')"
    using lookupFieldName_d3 [OF d999] by (simp add: map_of_definitions_999)
  moreover have "lookupFieldName (js ''123'') = Val (js ''Unknown'')"
    using lookupFieldName_d3 [OF d123] by (simp add: map_of_definitions_123)
  ultimately show ?thesis
    using first second map_of_definitions_123 by blast
qed

theorem parse_field_names_witness:
  "test_d3 (js ''999'') \<and> test_d3 (js ''123'') \<and>
   (\<exists>r. parse (js ''99900'') = Inr r \<and> map KLVEntry.key (results r) = [js ''999''] \<and>
        map KLVEntry.name (results r) = [Val (js ''Generic Key'')]) \<and>
   (\<exists>r. parse (js ''12300'') = Inr r \<and> map KLVEntry.key (results r) = [js ''123''] \<and>
        map KLVEntry.name (results r) = [Val (js ''Unknown'')])"
proof -
  have d999: "test_d3 (js ''999'')" and d123: "test_d3 (js ''123'')"
    by (simp_all add: test_d3_def isDigit_def js_def)
  have a: "js ''999'' @ js ''00'' = js ''99900''" "js ''123'' @ js ''00'' = js ''12300''"
    by (simp_all add: js_def)
  from parse_field_names [of "[]" "js ''999''"] d999
  have g: "lookupFieldName (js ''999'') = Val (js ''Generic Key'')"
    and p9: "\<exists>r. parse (js ''999'' @ js ''00'') = Inr r \<and>
               map KLVEntry.key (results r) = [js ''999''] \<and>
               map KLVEntry.name (results r) = [lookupFieldName (js ''999'')]"
    by blast+
  from parse_field_names [of "[]" "js ''123''"] d123
  have u: "lookupFieldName (js ''123'') = Val (js ''Unknown'')"
    and p1: "\<exists>r. parse (js ''123'' @ js ''00'') = Inr r \<and>
               map KLVEntry.key (results r) = [js ''123''] \<and>
               map KLVEntry.name (results r) = [lookupFieldName (js ''123'')]"
    by blast+
  from p9 p1 d999 d123 show ?thesis
    unfolding a g u by (intro conjI)
qed

section \<open>Parser: entries and offsets\<close>

text \<open>
  Claim C3. \<open>parse\<close> returns on every input, and in its result the value of each entry has as
  many characters as its length field says, and each entry after the first starts where the
  one before it ends: its offset is the previous offset plus 5 plus the previous length, hence
  strictly larger.
\<close>

theorem parse_entry_invariants:
  "\<exists>r. parse s = Inr r \<and>
     (\<forall>e \<in> set (results r). length (KLVEntry.value e) = len e) \<and>
     (\<forall>i. Suc i < length (results r) \<longrightarrow>
        pos (results r ! Suc i) = pos (results r ! i) + 5 + len (results r ! i) \<and>
        pos (results r ! i) < pos (results r ! Suc i))"
proof -
  from parse_scanned [of s] obtain r where r: "parse s = Inr r"
    and sc: "scanned (stripWhitespace s) 0 (results r) (KLVParseResult.errors r)"
    by blast
  from scanned_value_length [OF sc] scanned_offsets [OF sc] have
    "(\<forall>e \<in> set (results r). length (KLVEntry.value e) = len e) \<and>
     (\<forall>i. Suc i < length (results r) \<longrightarrow>
        pos (results r ! Suc i) = pos (results r ! i) + 5 + len (results r ! i) \<and>
        pos (results r ! i) < pos (results r ! Suc i))"
    by simp
  with r show ?thesis by blast
qed

lemma build_002_026:
  "build [\<lparr>KLVBuildEntry.key = js ''002'', value = js ''AB48DE''\<rparr>,
          \<lparr>KLVBuildEntry.key = js ''026'', value = js ''4577''\<rparr>] = js ''00206AB48DE026044577''"
  by (simp add: build_eq_build_spec padStart_def js_def toString_small)

lemma parse_002_026:
  "parse (js ''00206AB48DE026044577'') =
     Inr \<lparr>results = [theEntry (js ''002'') 6 (js ''AB48DE'') 0,
                     theEntry (js ''026'') 4 (js ''4577'') 11],
          KLVParseResult.errors = []\<rparr>"
proof -
  have "parse (build [\<lparr>KLVBuildEntry.key = js ''002'', value = js ''AB48DE''\<rparr>,
          \<lparr>KLVBuildEntry.key = js ''026'', value = js ''4577''\<rparr>]) =
        Inr \<lparr>results = built_entries 0 [\<lparr>KLVBuildEntry.key = js ''002'', value = js ''AB48DE''\<rparr>,
          \<lparr>KLVBuildEntry.key = js ''026'', value = js ''4577''\<rparr>], KLVParseResult.errors = []\<rparr>"
    by (rule parse_build) (simp add: js_def isDigit_def isWhitespace_def)
  then show ?thesis
    by (simp add: build_002_026 padStart_def length_js eval_nat_numeral)
qed

theorem parse_entry_invariants_witness:
  "\<exists>r. parse (js ''00206AB48DE026044577'') = Inr r \<and>
     Suc 0 < length (results r) \<and>
     pos (results r ! 0) = 0 \<and> len (results r ! 0) = 6 \<and> pos (results r ! Suc 0) = 11 \<and>
     list_all (\<lambda>e. length (KLVEntry.value e) = len e) (results r)"
  using parse_entry_invariants [of "js ''00206AB48DE026044577''"]
  by (simp add: parse_002_026 list_all_iff)

section \<open>Parser: errors\<close>

text \<open>
  Claim C2. \<open>parse\<close> returns on every input. Let \<open>q\<close> be the sum of \<open>5 + len\<close> over the
  entries it returns. At most one error is returned. Every returned entry is a well-formed
  field of the buffer that starts where the entries before it end: its key is the three digits
  at its offset, its length is the number that the next two digits spell, its value is the
  characters that follow, and it ends at or before \<open>q\<close>; so no entry is emitted for a field
  that fails, and none covers the buffer from \<open>q\<close> on. Either there is no error and \<open>q\<close> is
  the end of the buffer, or the single error is the one that the field starting at \<open>q\<close>
  raises: fewer than five characters remain, or key or length prefix are not digits, or the
  value runs past the end of the buffer.
\<close>

theorem parse_halts_at_first_error:
  "\<exists>r. parse s = Inr r \<and>
    (let clean = stripWhitespace s; q = (\<Sum>e\<leftarrow>results r. 5 + len e) in
     length (KLVParseResult.errors r) \<le> 1 \<and>
     (\<forall>e \<in> set (results r). pos e + 5 + len e \<le> q) \<and>
     (\<forall>i < length (results r).
        pos (results r ! i) = (\<Sum>e\<leftarrow>take i (results r). 5 + len e) \<and>
        pos (results r ! i) + 5 + len (results r ! i) \<le> length clean \<and>
        KLVEntry.key (results r ! i) =
          substring clean (pos (results r ! i)) (pos (results r ! i) + 3) \<and>
        test_d3 (KLVEntry.key (results r ! i)) \<and>
        test_d2 (substring clean (pos (results r ! i) + 3) (pos (results r ! i) + 5)) \<and>
        len (results r ! i) =
          parseInt (substring clean (pos (results r ! i) + 3) (pos (results r ! i) + 5)) \<and>
        KLVEntry.value (results r ! i) =
          substring clean (pos (results r ! i) + 5)
            (pos (results r ! i) + 5 + len (results r ! i))) \<and>
     (KLVParseResult.errors r = [] \<and> q = length clean \<or>
      q < length clean \<and> length clean < q + 5 \<and>
        KLVParseResult.errors r = [js ''Incomplete entry at position '' @ toString q] \<or>
      q + 5 \<le> length clean \<and>
        \<not> (test_d3 (substring clean q (q + 3)) \<and> test_d2 (substring clean (q + 3) (q + 5))) \<and>
        KLVParseResult.errors r = [js ''Invalid format at position '' @ toString q] \<or>
      q + 5 \<le> length clean \<and>
        test_d3 (substring clean q (q + 3)) \<and> test_d2 (substring clean (q + 3) (q + 5)) \<and>
        length clean < q + 5 + parseInt (substring clean (q + 3) (q + 5)) \<and>
        KLVParseResult.errors r = [js ''Incomplete value at position '' @ toString (q + 5)]))"
proof -
  let ?clean = "stripWhitespace s"
  from parse_scanned [of s] obtain r where r: "parse s = Inr r"
    and sc: "scanned ?clean 0 (results r) (KLVParseResult.errors r)"
    by blast
  let ?q = "\<Sum>e\<leftarrow>results r. 5 + len e"
  from scanned_frontier [OF sc]
  have before: "\<forall>e \<in> set (results r). pos e + 5 + len e \<le> ?q"
    and halt: "scanned ?clean ?q [] (KLVParseResult.errors r)"
    by simp_all
  from scanned_within [OF sc] have within: "?q \<le> length ?clean" by simp
  from scanned_errors_le_1 [OF sc] have one: "length (KLVParseResult.errors r) \<le> 1" .
  have fields: "\<forall>i < length (results r).
        pos (results r ! i) = (\<Sum>e\<leftarrow>take i (results r). 5 + len e) \<and>
        pos (results r ! i) + 5 + len (results r ! i) \<le> length ?clean \<and>
        KLVEntry.key (results r ! i) =
          substring ?clean (pos (results r ! i)) (pos (results r ! i) + 3) \<and>
        test_d3 (KLVEntry.key (results r ! i)) \<and>
        test_d2 (substring ?clean (pos (results r ! i) + 3) (pos (results r ! i) + 5)) \<and>
        len (results r ! i) =
          parseInt (substring ?clean (pos (results r ! i) + 3) (pos (results r ! i) + 5)) \<and>
        KLVEntry.value (results r ! i) =
          substring ?clean (pos (results r ! i) + 5)
            (pos (results r ! i) + 5 + len (results r ! i))"
  proof (intro allI impI)
    fix i assume i: "i < length (results r)"
    let ?e = "results r ! i"
    from scanned_nth_pos [OF sc i] have p: "pos ?e = (\<Sum>e\<leftarrow>take i (results r). 5 + len e)"
      by simp
    from scanned_nth_field [OF sc i] have
      b: "pos ?e + 5 + len ?e \<le> length ?clean"
      and k: "take 3 (drop (pos ?e) ?clean) = KLVEntry.key ?e"
      and d3: "test_d3 (KLVEntry.key ?e)"
      and d2: "test_d2 (take 2 (drop (pos ?e + 3) ?clean))"
      and n: "parseInt (take 2 (drop (pos ?e + 3) ?clean)) = len ?e"
      and v: "take (len ?e) (drop (pos ?e + 5) ?clean) = KLVEntry.value ?e"
      by simp_all
    from b have s1: "substring ?clean (pos ?e) (pos ?e + 3) = take 3 (drop (pos ?e) ?clean)"
      and s2: "substring ?clean (pos ?e + 3) (pos ?e + 5) = take 2 (drop (pos ?e + 3) ?clean)"
      and s3: "substring ?clean (pos ?e + 5) (pos ?e + 5 + len ?e) =
                 take (len ?e) (drop (pos ?e + 5) ?clean)"
      by (simp_all add: substring_in_range)
    from p b k d3 d2 n v show
      "pos ?e = (\<Sum>e\<leftarrow>take i (results r). 5 + len e) \<and>
        pos ?e + 5 + len ?e \<le> length ?clean \<and>
        KLVEntry.key ?e = substring ?clean (pos ?e) (pos ?e + 3) \<and>
        test_d3 (KLVEntry.key ?e) \<and>
        test_d2 (substring ?clean (pos ?e + 3) (pos ?e + 5)) \<and>
        len ?e = parseInt (substring ?clean (pos ?e + 3) (pos ?e + 5)) \<and>
        KLVEntry.value ?e = substring ?clean (pos ?e + 5) (pos ?e + 5 + len ?e)"
      unfolding s1 s2 s3 by (intro conjI) simp_all
  qed
  have sub: "?q + 5 \<le> length ?clean \<Longrightarrow>
      substring ?clean ?q (?q + 3) = take 3 (drop ?q ?clean) \<and>
      substring ?clean (?q + 3) (?q + 5) = take 2 (drop (?q + 3) ?clean)"
    by (simp add: substring_in_range)
  from halt within sub have stop:
    "KLVParseResult.errors r = [] \<and> ?q = length ?clean \<or>
      ?q < length ?clean \<and> length ?clean < ?q + 5 \<and>
        KLVParseResult.errors r = [js ''Incomplete entry at position '' @ toString ?q] \<or>
      ?q + 5 \<le> length ?clean \<and>
        \<not> (test_d3 (substring ?clean ?q (?q + 3)) \<and> test_d2 (substring ?clean (?q + 3) (?q + 5))) \<and>
        KLVParseResult.errors r = [js ''Invalid format at position '' @ toString ?q] \<or>
      ?q + 5 \<le> length ?clean \<and>
        test_d3 (substring ?clean ?q (?q + 3)) \<and> test_d2 (substring ?clean (?q + 3) (?q + 5)) \<and>
        length ?clean < ?q + 5 + parseInt (substring ?clean (?q + 3) (?q + 5)) \<and>
        KLVParseResult.errors r = [js ''Incomplete value at position '' @ toString (?q + 5)]"
    unfolding scanned.simps by (elim disjE conjE) simp_all
  from one before fields stop have
    "let clean = ?clean; q = ?q in
     length (KLVParseResult.errors r) \<le> 1 \<and>
     (\<forall>e \<in> set (results r). pos e + 5 + len e \<le> q) \<and>
     (\<forall>i < length (results r).
        pos (results r ! i) = (\<Sum>e\<leftarrow>take i (results r). 5 + len e) \<and>
        pos (results r ! i) + 5 + len (results r ! i) \<le> length clean \<and>
        KLVEntry.key (results r ! i) =
          substring clean (pos (results r ! i)) (pos (results r ! i) + 3) \<and>
        test_d3 (KLVEntry.key (results r ! i)) \<and>
        test_d2 (substring clean (pos (results r ! i) + 3) (pos (results r ! i) + 5)) \<and>
        len (results r ! i) =
          parseInt (substring clean (pos (results r ! i) + 3) (pos (results r ! i) + 5)) \<and>
        KLVEntry.value (results r ! i) =
          substring clean (pos (results r ! i) + 5)
            (pos (results r ! i) + 5 + len (results r ! i))) \<and>
     (KLVParseResult.errors r = [] \<and> q = length clean \<or>
      q < length clean \<and> length clean < q + 5 \<and>
        KLVParseResult.errors r = [js ''Incomplete entry at position '' @ toString q] \<or>
      q + 5 \<le> length clean \<and>
        \<not> (test_d3 (substring clean q (q + 3)) \<and> test_d2 (substring clean (q + 3) (q + 5))) \<and>
        KLVParseResult.errors r = [js ''Invalid format at position '' @ toString q] \<or>
      q + 5 \<le> length clean \<and>
        test_d3 (substring clean q (q + 3)) \<and> test_d2 (substring clean (q + 3) (q + 5)) \<and>
        length clean < q + 5 + parseInt (substring clean (q + 3) (q + 5)) \<and>
        KLVParseResult.errors r = [js ''Incomplete value at position '' @ toString (q + 5)])"
    by (simp only: Let_def simp_thms)
  with r show ?thesis by blast
qed

lemma parse_entry_then_short:
  "parse (js ''00201A 02'') =
     Inr \<lparr>results = [theEntry (js ''002'') 1 (js ''A'') 0],
          KLVParseResult.errors = [js ''Incomplete entry at position 6'']\<rparr>"
proof -
  let ?clean = "js ''00201A02''"
  have cl: "stripWhitespace (js ''00201A 02'') = ?clean"
    by (simp add: stripWhitespace_def isWhitespace_def js_def)
  have "parse_loop ?clean 0 [] [] =
        parse_loop ?clean (0 + 5 + parseInt (take 2 (drop (0 + 3) ?clean)))
          ([] @ [theEntry (take 3 (drop 0 ?clean)) (parseInt (take 2 (drop (0 + 3) ?clean)))
                   (take (parseInt (take 2 (drop (0 + 3) ?clean))) (drop (0 + 5) ?clean)) 0]) []"
    by (rule parse_loop_entry) (simp_all add: js_def test_d3_def test_d2_def isDigit_def parseInt_def)
  also have "\<dots> = parse_loop ?clean 6 [theEntry (js ''002'') 1 (js ''A'') 0] []"
    by (simp add: js_def parseInt_def isDigit_def)
  also have "\<dots> = Inr \<lparr>results = [theEntry (js ''002'') 1 (js ''A'') 0],
                     KLVParseResult.errors = [] @ [js ''Incomplete entry at position '' @ toString 6]\<rparr>"
    by (rule parse_loop_incomplete_entry) (simp_all add: length_js)
  finally show ?thesis
    unfolding parse_def cl by (simp add: toString_small js_def)
qed

text \<open>
  On \<open>A0201X02\<close> the first field fails: no entry is returned, whatever follows it.
\<close>

lemma parse_first_field_invalid:
  "parse (js ''A0201X02'') =
     Inr \<lparr>results = [], KLVParseResult.errors = [js ''Invalid format at position 0'']\<rparr>"
proof -
  have cl: "stripWhitespace (js ''A0201X02'') = js ''A0201X02''"
    by (simp add: stripWhitespace_def isWhitespace_def js_def)
  have "parse_loop (js ''A0201X02'') 0 [] [] =
        Inr \<lparr>results = [],
             KLVParseResult.errors = [] @ [js ''Invalid format at position '' @ toString 0]\<rparr>"
    by (rule parse_loop_invalid_format) (simp_all add: js_def test_d3_def isDigit_def)
  then show ?thesis
    unfolding parse_def cl by (simp add: toString_small js_def)
qed

theorem parse_halts_at_first_error_witness:
  "parse (js ''00201A 02'') =
     Inr \<lparr>results = [theEntry (js ''002'') 1 (js ''A'') 0],
          KLVParseResult.errors = [js ''Incomplete entry at position 6'']\<rparr> \<and>
   pos (theEntry (js ''002'') 1 (js ''A'') 0) + 5 + len (theEntry (js ''002'') 1 (js ''A'') 0) \<le> 6 \<and>
   KLVEntry.key (theEntry (js ''002'') 1 (js ''A'') 0) =
     substring (stripWhitespace (js ''00201A 02'')) 0 3 \<and>
   test_d3 (KLVEntry.key (theEntry (js ''002'') 1 (js ''A'') 0)) \<and>
   6 < length (stripWhitespace (js ''00201A 02'')) \<and>
   length (stripWhitespace (js ''00201A 02'')) < 6 + 5"
proof -
  have l: "length (stripWhitespace (js ''00201A 02'')) = 8"
    by (simp add: stripWhitespace_def isWhitespace_def js_def)
  have k: "substring (stripWhitespace (js ''00201A 02'')) 0 3 = js ''002''"
    by (simp add: stripWhitespace_def isWhitespace_def substring_def js_def)
  have d: "test_d3 (js ''002'')"
    by (simp add: test_d3_def isDigit_def js_def)
  from parse_halts_at_first_error [of "js ''00201A 02''"] l show ?thesis
    by (simp add: parse_entry_then_short Let_def k d)
qed

section \<open>Parser and validator: totality\<close>

lemma parse_loop_terminates: "parse_loop_dom (clean, p, rs, es)"
proof -
  have "All parse_loop_dom"
    by (relation "measure (\<lambda>(clean, p, rs, es). length clean - p)") auto
  then show ?thesis by simp
qed

lemma length_le_extent: "length rs \<le> (\<Sum>e\<leftarrow>rs. 5 + len e)"
  by (induction rs) simp_all

lemma stripWhitespace_all: "list_all isWhitespace s \<Longrightarrow> stripWhitespace s = []"
  by (simp add: stripWhitespace_def list_all_iff)

text \<open>
  Claim C9. \<open>parse\<close> and \<open>validate\<close> return a result on every string, whatever its code
  units, and never throw: the loop of \<open>parse\<close> terminates, and the reads of \<open>flag\<close>, \<open>code\<close>
  and \<open>name\<close> in \<open>formatCurrency\<close>, which throw a \<open>TypeError\<close> on \<open>undefined\<close>, happen only
  behind the test that the table returned something (\<open>formatCurrency_returns\<close>,
  \<open>makeEntry_returns\<close>); the results of the two decorators are read in \<open>parse\<close> only where
  they are not \<open>null\<close>. On the empty string and on a string of white space only they return
  no entry and no error.
\<close>

theorem parse_validate_total:
  "parse_loop_dom (stripWhitespace s, 0, [], []) \<and>
   (\<exists>r. parse s = Inr r \<and> length (results r) \<le> length s \<and>
        length (KLVParseResult.errors r) \<le> 1) \<and>
   (\<exists>v. validate s = Inr v) \<and>
   (list_all isWhitespace s \<longrightarrow>
      parse s = Inr \<lparr>results = [], KLVParseResult.errors = []\<rparr> \<and>
      validate s = Inr \<lparr>isValid = True, entriesCount = 0, KLVValidationResult.errors = [],
                         totalLength = 0\<rparr>)"
proof -
  from parse_scanned [of s] obtain r where r: "parse s = Inr r"
    and sc: "scanned (stripWhitespace s) 0 (results r) (KLVParseResult.errors r)"
    by blast
  have "length (results r) \<le> (\<Sum>e\<leftarrow>results r. 5 + len e)"
    by (rule length_le_extent)
  also from scanned_within [OF sc] have "\<dots> \<le> length (stripWhitespace s)" by simp
  also have "\<dots> \<le> length s" by (simp add: stripWhitespace_def)
  finally have "length (results r) \<le> length s" .
  moreover from scanned_errors_le_1 [OF sc] have "length (KLVParseResult.errors r) \<le> 1" .
  ultimately have a: "\<exists>r. parse s = Inr r \<and> length (results r) \<le> length s \<and>
        length (KLVParseResult.errors r) \<le> 1"
    using r by blast
  from validate_returns [OF r] have b: "\<exists>v. validate s = Inr v" by blast
  have c: "list_all isWhitespace s \<Longrightarrow>
             parse s = Inr \<lparr>results = [], KLVParseResult.errors = []\<rparr>"
    by (simp add: parse_def stripWhitespace_all parse_loop_done)
  have d: "list_all isWhitespace s \<Longrightarrow>
      validate s = Inr \<lparr>isValid = True, entriesCount = 0, KLVValidationResult.errors = [],
                         totalLength = 0\<rparr>"
    using validate_returns [OF c] by (simp add: stripWhitespace_all)
  from a b c d show ?thesis by (simp add: parse_loop_terminates)
qed

theorem parse_validate_total_witness:
  "list_all isWhitespace [0x20, 0x09, 0x0A, 0xA0, 0x3000] \<and>
   parse [0x20, 0x09, 0x0A, 0xA0, 0x3000] = Inr \<lparr>results = [], KLVParseResult.errors = []\<rparr> \<and>
   validate [0x20, 0x09, 0x0A, 0xA0, 0x3000] =
     Inr \<lparr>isValid = True, entriesCount = 0, KLVValidationResult.errors = [], totalLength = 0\<rparr> \<and>
   parse [] = Inr \<lparr>results = [], KLVParseResult.errors = []\<rparr>"
  using parse_validate_total [of "[0x20, 0x09, 0x0A, 0xA0, 0x3000]"] parse_validate_total [of "[]"]
  by (simp add: isWhitespace_def)

section \<open>Round trips\<close>

text \<open>
  Claim C10. \<open>parse s\<close> and \<open>validate s\<close> return, and when \<open>parse s\<close> returns no error and
  every entry it returns has a non-empty value, building the (key, value) pairs of these
  entries in order gives back \<open>s\<close> without its white space, and the sum of \<open>5 + len\<close> over the
  entries is the total length that \<open>validate s\<close> reports.
\<close>

theorem parse_build_roundtrip:
  "\<exists>r v. parse s = Inr r \<and> validate s = Inr v \<and>
     (KLVParseResult.errors r = [] \<and> (\<forall>e \<in> set (results r). KLVEntry.value e \<noteq> []) \<longrightarrow>
        build (map (\<lambda>e. \<lparr>KLVBuildEntry.key = KLVEntry.key e, value = KLVEntry.value e\<rparr>)
                 (results r)) = stripWhitespace s \<and>
        (\<Sum>e\<leftarrow>results r. 5 + len e) = totalLength v)"
proof -
  from parse_scanned [of s] obtain r where r: "parse s = Inr r"
    and sc: "scanned (stripWhitespace s) 0 (results r) (KLVParseResult.errors r)"
    by blast
  let ?v = "\<lparr>isValid = (KLVParseResult.errors r = []), entriesCount = length (results r),
             KLVValidationResult.errors = KLVParseResult.errors r,
             totalLength = length (stripWhitespace s)\<rparr>"
  from validate_returns [OF r] have v: "validate s = Inr ?v" .
  have "build (map (\<lambda>e. \<lparr>KLVBuildEntry.key = KLVEntry.key e, value = KLVEntry.value e\<rparr>)
                 (results r)) = stripWhitespace s \<and>
        (\<Sum>e\<leftarrow>results r. 5 + len e) = totalLength ?v"
    if e: "KLVParseResult.errors r = []" and n: "\<forall>e \<in> set (results r). KLVEntry.value e \<noteq> []"
  proof -
    from sc e have sc': "scanned (stripWhitespace s) 0 (results r) []" by simp
    from scanned_rebuild [OF sc' n] scanned_total [OF sc'] show ?thesis
      by (simp add: build_eq_build_spec)
  qed
  with r v show ?thesis by blast
qed

lemma parse_spaced:
  "parse (js ''002 06 AB48DE'') =
     Inr \<lparr>results = [theEntry (js ''002'') 6 (js ''AB48DE'') 0], KLVParseResult.errors = []\<rparr>"
proof -
  have b: "build [\<lparr>KLVBuildEntry.key = js ''002'', value = js ''AB48DE''\<rparr>] = js ''00206AB48DE''"
    by (simp add: build_eq_build_spec padStart_def js_def toString_small)
  have "parse (build [\<lparr>KLVBuildEntry.key = js ''002'', value = js ''AB48DE''\<rparr>]) =
        Inr \<lparr>results = built_entries 0 [\<lparr>KLVBuildEntry.key = js ''002'', value = js ''AB48DE''\<rparr>],
             KLVParseResult.errors = []\<rparr>"
    by (rule parse_build) (simp add: js_def isDigit_def isWhitespace_def)
  then have "parse (js ''00206AB48DE'') =
      Inr \<lparr>results = [theEntry (js ''002'') 6 (js ''AB48DE'') 0], KLVParseResult.errors = []\<rparr>"
    by (simp add: b padStart_def length_js eval_nat_numeral)
  moreover have "stripWhitespace (js ''002 06 AB48DE'') = stripWhitespace (js ''00206AB48DE'')"
    by (simp add: stripWhitespace_def isWhitespace_def js_def)
  ultimately show ?thesis by (simp add: parse_def)
qed

theorem parse_build_roundtrip_witness:
  "\<exists>r v. parse (js ''002 06 AB48DE'') = Inr r \<and> validate (js ''002 06 AB48DE'') = Inr v \<and>
     KLVParseResult.errors r = [] \<and>
     list_all (\<lambda>e. KLVEntry.value e \<noteq> []) (results r) \<and>
     build (map (\<lambda>e. \<lparr>KLVBuildEntry.key = KLVEntry.key e, value = KLVEntry.value e\<rparr>)
              (results r)) = js ''00206AB48DE'' \<and>
     (\<Sum>e\<leftarrow>results r. 5 + len e) = 11 \<and> totalLength v = 11"
proof -
  have c: "stripWhitespace (js ''002 06 AB48DE'') = js ''00206AB48DE''"
    by (simp add: stripWhitespace_def isWhitespace_def js_def)
  from parse_build_roundtrip [of "js ''002 06 AB48DE''"] obtain r v where
    r: "parse (js ''002 06 AB48DE'') = Inr r" and v: "validate (js ''002 06 AB48DE'') = Inr v"
    and imp: "KLVParseResult.errors r = [] \<and> (\<forall>e \<in> set (results r). KLVEntry.value e \<noteq> []) \<longrightarrow>
        build (map (\<lambda>e. \<lparr>KLVBuildEntry.key = KLVEntry.key e, value = KLVEntry.value e\<rparr>)
                 (results r)) = stripWhitespace (js ''002 06 AB48DE'') \<and>
        (\<Sum>e\<leftarrow>results r. 5 + len e) = totalLength v"
    by blast
  from r have req: "r = \<lparr>results = [theEntry (js ''002'') 6 (js ''AB48DE'') 0],
                         KLVParseResult.errors = []\<rparr>"
    by (simp add: parse_spaced)
  then have e: "KLVParseResult.errors r = []"
    and n: "\<forall>e \<in> set (results r). KLVEntry.value e \<noteq> []"
    and s: "(\<Sum>e\<leftarrow>results r. 5 + len e) = 11"
    by (simp_all add: js_Nil_iff)
  from imp e n have
    "build (map (\<lambda>e. \<lparr>KLVBuildEntry.key = KLVEntry.key e, value = KLVEntry.value e\<rparr>)
                 (results r)) = js ''00206AB48DE''"
    and "totalLength v = 11"
    by (simp_all add: c s)
  with r v e n s show ?thesis by (auto simp: list_all_iff)
qed

text \<open>
  Claim C1, amended. For every list of build entries in which each key is non-empty, has at
  most three characters, all of them decimal digits, and each value is non-empty, shorter than
  100 characters and free of white space, \<open>parse (build entries)\<close> returns no error and one
  entry per build entry, in the same order: its key is the build key left-padded to three
  characters with \<open>0\<close>, its value is the build value, its length is the number of characters
  of the value, the first offset is 0 and each later offset is the previous offset plus 5 plus
  the previous length, hence strictly larger.
\<close>

theorem build_parse_roundtrip:
  assumes "\<forall>e \<in> set es. KLVBuildEntry.key e \<noteq> [] \<and> length (KLVBuildEntry.key e) \<le> 3 \<and>
             list_all isDigit (KLVBuildEntry.key e) \<and> KLVBuildEntry.value e \<noteq> [] \<and>
             length (KLVBuildEntry.value e) < 100 \<and>
             list_all (\<lambda>c. \<not> isWhitespace c) (KLVBuildEntry.value e)"
  shows "\<exists>r. parse (build es) = Inr r \<and>
         KLVParseResult.errors r = [] \<and>
         map KLVEntry.key (results r) = map (\<lambda>e. padStart 3 0x30 (KLVBuildEntry.key e)) es \<and>
         map KLVEntry.value (results r) = map KLVBuildEntry.value es \<and>
         map len (results r) = map (\<lambda>e. length (KLVBuildEntry.value e)) es \<and>
         (es \<noteq> [] \<longrightarrow> pos (hd (results r)) = 0) \<and>
         (\<forall>i. Suc i < length es \<longrightarrow>
            pos (results r ! Suc i) = pos (results r ! i) + 5 + len (results r ! i) \<and>
            pos (results r ! i) < pos (results r ! Suc i))"
proof -
  let ?r = "\<lparr>results = built_entries 0 es, KLVParseResult.errors = []\<rparr>"
  from assms have r: "parse (build es) = Inr ?r"
    by (rule parse_build)
  from parse_scanned [of "build es"] r
  have sc: "scanned (stripWhitespace (build es)) 0 (results ?r) (KLVParseResult.errors ?r)"
    by auto
  have "\<forall>i. Suc i < length es \<longrightarrow>
            pos (results ?r ! Suc i) = pos (results ?r ! i) + 5 + len (results ?r ! i)"
    using scanned_offsets [OF sc] by (simp add: built_entries_fields)
  then have "KLVParseResult.errors ?r = [] \<and>
         map KLVEntry.key (results ?r) = map (\<lambda>e. padStart 3 0x30 (KLVBuildEntry.key e)) es \<and>
         map KLVEntry.value (results ?r) = map KLVBuildEntry.value es \<and>
         map len (results ?r) = map (\<lambda>e. length (KLVBuildEntry.value e)) es \<and>
         (es \<noteq> [] \<longrightarrow> pos (hd (results ?r)) = 0) \<and>
         (\<forall>i. Suc i < length es \<longrightarrow>
            pos (results ?r ! Suc i) = pos (results ?r ! i) + 5 + len (results ?r ! i) \<and>
            pos (results ?r ! i) < pos (results ?r ! Suc i))"
    by (simp add: built_entries_fields built_entries_hd)
  with r show ?thesis by blast
qed

text \<open>
  The claim as stated fails on a key of fewer than three digits, which comes back padded,
  and on a value with white space, which the parser strips before it counts: the value
  \<open>A B\<close> is built as \<open>00203A B\<close> and parsed as \<open>00203AB\<close>, where the field is cut short.
\<close>

theorem build_parse_roundtrip_counterexample:
  "parse (build [\<lparr>KLVBuildEntry.key = js ''2'', value = js ''A''\<rparr>]) =
     Inr \<lparr>results = [theEntry (js ''002'') 1 (js ''A'') 0], KLVParseResult.errors = []\<rparr> \<and>
   map KLVEntry.key [theEntry (js ''002'') 1 (js ''A'') 0]
     \<noteq> map KLVBuildEntry.key [\<lparr>KLVBuildEntry.key = js ''2'', value = js ''A''\<rparr>] \<and>
   parse (build [\<lparr>KLVBuildEntry.key = js ''002'', value = js ''A B''\<rparr>]) =
     Inr \<lparr>results = [],
          KLVParseResult.errors = [js ''Incomplete value at position 5'']\<rparr> \<and>
   map KLVEntry.value []
     \<noteq> map KLVBuildEntry.value [\<lparr>KLVBuildEntry.key = js ''002'', value = js ''A B''\<rparr>]"
proof -
  have "parse (build [\<lparr>KLVBuildEntry.key = js ''2'', value = js ''A''\<rparr>]) =
        Inr \<lparr>results = built_entries 0 [\<lparr>KLVBuildEntry.key = js ''2'', value = js ''A''\<rparr>],
             KLVParseResult.errors = []\<rparr>"
    by (rule parse_build) (simp add: js_def isDigit_def isWhitespace_def)
  moreover have "padStart 3 0x30 (js ''2'') = js ''002''"
    by (simp add: padStart_def js_def eval_nat_numeral)
  ultimately have a: "parse (build [\<lparr>KLVBuildEntry.key = js ''2'', value = js ''A''\<rparr>]) =
     Inr \<lparr>results = [theEntry (js ''002'') 1 (js ''A'') 0], KLVParseResult.errors = []\<rparr>"
    by (simp add: length_js)
  have b: "build [\<lparr>KLVBuildEntry.key = js ''002'', value = js ''A B''\<rparr>] = js ''00203A B''"
    by (simp add: build_eq_build_spec padStart_def js_def toString_small)
  have c: "stripWhitespace (js ''00203A B'') = js ''00203AB''"
    by (simp add: stripWhitespace_def isWhitespace_def js_def)
  have "parse_loop (js ''00203AB'') 0 [] [] =
        Inr \<lparr>results = [],
             KLVParseResult.errors = [] @ [js ''Incomplete value at position '' @ toString (0 + 5)]\<rparr>"
    by (rule parse_loop_incomplete_value)
      (simp_all add: js_def test_d3_def test_d2_def isDigit_def parseInt_def)
  then have d: "parse (js ''00203A B'') =
     Inr \<lparr>results = [], KLVParseResult.errors = [js ''Incomplete value at position 5'']\<rparr>"
    unfolding parse_def c by (simp add: toString_small js_def)
  from a d show ?thesis by (simp add: b js_eq_iff)
qed

lemma map_eq_two_first: "map f xs = [a, b] \<Longrightarrow> f (xs ! 0) = a"
  by (cases xs) auto

theorem build_parse_roundtrip_witness:
  "list_all
     (\<lambda>e. KLVBuildEntry.key e \<noteq> [] \<and> length (KLVBuildEntry.key e) \<le> 3 \<and>
          list_all isDigit (KLVBuildEntry.key e) \<and> KLVBuildEntry.value e \<noteq> [] \<and>
          length (KLVBuildEntry.value e) < 100 \<and>
          list_all (\<lambda>c. \<not> isWhitespace c) (KLVBuildEntry.value e))
     [\<lparr>KLVBuildEntry.key = js ''2'', value = js ''AB48DE''\<rparr>,
      \<lparr>KLVBuildEntry.key = js ''026'', value = js ''4577''\<rparr>] \<and>
   (\<exists>r. parse (build [\<lparr>KLVBuildEntry.key = js ''2'', value = js ''AB48DE''\<rparr>,
                       \<lparr>KLVBuildEntry.key = js ''026'', value = js ''4577''\<rparr>]) = Inr r \<and>
        KLVParseResult.errors r = [] \<and>
        map KLVEntry.key (results r) = [js ''002'', js ''026''] \<and>
        map KLVEntry.value (results r) = [js ''AB48DE'', js ''4577''] \<and>
        map len (results r) = [6, 4] \<and>
        pos (results r ! 0) = 0 \<and>
        pos (results r ! Suc 0) = pos (results r ! 0) + 5 + 6)"
proof -
  let ?es = "[\<lparr>KLVBuildEntry.key = js ''2'', value = js ''AB48DE''\<rparr>,
              \<lparr>KLVBuildEntry.key = js ''026'', value = js ''4577''\<rparr>]"
  have h: "\<forall>e \<in> set ?es.
      KLVBuildEntry.key e \<noteq> [] \<and> length (KLVBuildEntry.key e) \<le> 3 \<and>
      list_all isDigit (KLVBuildEntry.key e) \<and> KLVBuildEntry.value e \<noteq> [] \<and>
      length (KLVBuildEntry.value e) < 100 \<and>
      list_all (\<lambda>c. \<not> isWhitespace c) (KLVBuildEntry.value e)"
    by (simp add: js_def isDigit_def isWhitespace_def)
  from build_parse_roundtrip [OF h] obtain r where
    r: "parse (build ?es) = Inr r" and e: "KLVParseResult.errors r = []"
    and k: "map KLVEntry.key (results r) = [js ''002'', js ''026'']"
    and v: "map KLVEntry.value (results r) = [js ''AB48DE'', js ''4577'']"
    and l: "map len (results r) = [6, 4]"
    and z: "pos (hd (results r)) = 0"
    and o: "pos (results r ! Suc 0) = pos (results r ! 0) + 5 + len (results r ! 0)"
    by (auto simp: padStart_def js_def eval_nat_numeral)
  from l have l0: "len (results r ! 0) = 6" by (rule map_eq_two_first)
  from l have "results r \<noteq> []" by auto
  with z have z0: "pos (results r ! 0) = 0" by (simp add: hd_conv_nth)
  from r e k v l z0 o l0 h show ?thesis by (auto simp: list_all_iff)
qed

end
